(* ===== verification/Prelude.thy ===== *)
theory Prelude
  imports Complex_Main "HOL-Library.Monad_Syntax"
begin

text \<open>
  Shared vocabulary of the development: tensors as nested lists of reals (the
  batch axis is left out, since every module of \<^verbatim>\<open>audio_model.py\<close> treats the
  samples of a batch independently), the torch primitives the model calls
  (\<^verbatim>\<open>nn.Linear\<close>, \<^verbatim>\<open>F.relu\<close>, \<^verbatim>\<open>torch.matmul\<close>, \<^verbatim>\<open>F.softmax\<close>,
  \<^verbatim>\<open>nn.Dropout\<close>, \<^verbatim>\<open>reshape\<close>/\<^verbatim>\<open>view\<close>), shape predicates, and the generic
  lemmas on lists and sums the component theories share.
  A torch shape error is the value \<open>None\<close> of an option.
\<close>

text \<open>
  Tensor sizes such as 512 and 768 occur as numerals; the simplifier must not unfold
  \<open>[0..<512]\<close> into 512 elements.
\<close>

declare upt_rec_numeral [simp del]

named_theorems shape_simps "shape facts of tensors and of the torch primitives"

type_synonym vec = "real list"
type_synonym mat = "real list list"
type_synonym tensor3 = "real list list list"

abbreviation zeros3 :: "nat \<Rightarrow> nat \<Rightarrow> nat \<Rightarrow> tensor3" where
  "zeros3 a b c \<equiv> replicate a (replicate b (replicate c 0))"

section \<open>Shapes\<close>

definition is_vec :: "nat \<Rightarrow> vec \<Rightarrow> bool" where
  "is_vec n v \<longleftrightarrow> length v = n"

definition is_mat :: "nat \<Rightarrow> nat \<Rightarrow> 'a list list \<Rightarrow> bool" where
  "is_mat n m A \<longleftrightarrow> length A = n \<and> list_all (\<lambda>r. length r = m) A"

definition is_t3 :: "nat \<Rightarrow> nat \<Rightarrow> nat \<Rightarrow> 'a list list list \<Rightarrow> bool" where
  "is_t3 a b c X \<longleftrightarrow> length X = a \<and> list_all (is_mat b c) X"

text \<open>Size of the last axis of a matrix (\<^verbatim>\<open>size()[-1]\<close>), read from its first row.\<close>

definition width :: "mat \<Rightarrow> nat" where
  "width A = (case A of [] \<Rightarrow> 0 | r # _ \<Rightarrow> length r)"

text \<open>All entries of a matrix are zero (a zero-padded time frame).\<close>

definition all_zero :: "mat \<Rightarrow> bool" where
  "all_zero A \<longleftrightarrow> list_all (list_all (\<lambda>v. v = 0)) A"

section \<open>Torch primitives\<close>

definition dot :: "vec \<Rightarrow> vec \<Rightarrow> real" where
  "dot v w = sum_list (map2 (*) v w)"

definition vadd :: "vec \<Rightarrow> vec \<Rightarrow> vec" where
  "vadd v w = map2 (+) v w"

definition madd :: "mat \<Rightarrow> mat \<Rightarrow> mat" where
  "madd A B = map2 vadd A B"

definition relu :: "real \<Rightarrow> real" where
  "relu v = max 0 v"

text \<open>\<^verbatim>\<open>F.relu\<close> and \<^verbatim>\<open>nn.ReLU\<close> on a matrix.\<close>

definition relu_mat :: "mat \<Rightarrow> mat" where
  "relu_mat = map (map relu)"

definition matvec :: "mat \<Rightarrow> vec \<Rightarrow> vec" where
  "matvec W x = map (\<lambda>w. dot w x) W"

text \<open>\<^verbatim>\<open>torch.matmul\<close> on two matrices: rows of \<open>A\<close> against columns of \<open>B\<close>.\<close>

definition matmul :: "mat \<Rightarrow> mat \<Rightarrow> mat" where
  "matmul A B = map (\<lambda>r. map (dot r) (transpose B)) A"

text \<open>\<^verbatim>\<open>F.softmax(score, dim=-1)\<close> on one row.\<close>

definition softmax :: "vec \<Rightarrow> vec" where
  "softmax v = map (\<lambda>x. exp x / sum_list (map exp v)) v"

text \<open>
  \<^verbatim>\<open>nn.Linear(in, out, bias)\<close>: the weight is \<open>out \<times> in\<close> (torch computes
  \<open>x W\<^sup>T + b\<close>); \<^verbatim>\<open>bias=False\<close> is \<open>None\<close>.
\<close>

record linear =
  lin_weight :: mat
  lin_bias :: "vec option"

definition linear_fwd :: "linear \<Rightarrow> vec \<Rightarrow> vec" where
  "linear_fwd L x =
     (case lin_bias L of None \<Rightarrow> matvec (lin_weight L) x
      | Some b \<Rightarrow> vadd (matvec (lin_weight L) x) b)"

text \<open>\<^verbatim>\<open>nn.Linear\<close> applied to the rows of a matrix: torch raises unless every row has
  \<open>in_features\<close> entries (the width of the weight).\<close>

definition linear_rows :: "linear \<Rightarrow> mat \<Rightarrow> mat option" where
  "linear_rows L X =
     (if list_all (\<lambda>r. length r = width (lin_weight L)) X then Some (map (linear_fwd L) X) else None)"

definition linear_wf :: "nat \<Rightarrow> nat \<Rightarrow> linear \<Rightarrow> bool" where
  "linear_wf n_in n_out L \<longleftrightarrow> is_mat n_out n_in (lin_weight L)
     \<and> (case lin_bias L of None \<Rightarrow> True | Some b \<Rightarrow> length b = n_out)"

text \<open>
  \<^verbatim>\<open>nn.Dropout(p)\<close>: in training mode every element is kept or zeroed by an
  independent Bernoulli draw, and kept elements are scaled by \<open>1/(1-p)\<close>; in
  evaluation mode it is the identity. The draw is an argument (\<open>keep\<close>), so the
  model is a function of the random choices.
\<close>

definition dropout :: "real \<Rightarrow> bool \<Rightarrow> (nat \<Rightarrow> bool) \<Rightarrow> vec \<Rightarrow> vec" where
  "dropout p training keep x =
     (if training then map (\<lambda>i. if keep i then x ! i / (1 - p) else 0) [0..<length x] else x)"

definition dropout_mat :: "real \<Rightarrow> bool \<Rightarrow> (nat \<Rightarrow> nat \<Rightarrow> bool) \<Rightarrow> mat \<Rightarrow> mat" where
  "dropout_mat p training keep X =
     (if training then map (\<lambda>i. dropout p True (keep i) (X ! i)) [0..<length X] else X)"

text \<open>
  \<^verbatim>\<open>reshape\<close> and \<^verbatim>\<open>view\<close> reinterpret the flat row-major buffer of a tensor.
  \<open>chunks n xs\<close> cuts the buffer into rows of \<open>n\<close> elements.
\<close>

function chunks :: "nat \<Rightarrow> 'a list \<Rightarrow> 'a list list" where
  "chunks n xs = (if n = 0 \<or> xs = [] then [] else take n xs # chunks n (drop n xs))"
  by pat_completeness auto
termination
  by (relation "measure (\<lambda>(n, xs). length xs)") auto

declare chunks.simps [simp del]

text \<open>
  \<^verbatim>\<open>reshape([.., r, -1])\<close> of a buffer: \<open>r\<close> rows, the row length inferred; torch
  raises when the size is not a multiple of \<open>r\<close> or when the buffer is empty (the
  inferred size would be ambiguous).
\<close>

definition reshape_rows :: "nat \<Rightarrow> 'a list \<Rightarrow> 'a list list option" where
  "reshape_rows r xs =
     (if r = 0 \<or> xs = [] \<or> length xs mod r \<noteq> 0 then None
      else Some (chunks (length xs div r) xs))"

text \<open>\<^verbatim>\<open>view(-1, n)\<close>: rows of \<open>n\<close> elements, their number inferred.\<close>

definition view_cols :: "nat \<Rightarrow> 'a list \<Rightarrow> 'a list list option" where
  "view_cols n xs =
     (if n = 0 \<or> xs = [] \<or> length xs mod n \<noteq> 0 then None else Some (chunks n xs))"

section \<open>Lemmas on lists and shapes\<close>

lemma chunks_Nil [simp]: "chunks n [] = []"
  by (simp add: chunks.simps)

lemma chunks_append:
  assumes "length ys = n" "0 < n"
  shows "chunks n (ys @ zs) = ys # chunks n zs"
  using assms by (subst chunks.simps) auto

lemma chunks_concat:
  assumes "0 < n" "\<forall>c \<in> set cs. length c = n"
  shows "chunks n (concat cs) = cs"
  using assms(2)
proof (induction cs)
  case Nil
  then show ?case by simp
next
  case (Cons c cs)
  then show ?case by (simp add: chunks_append assms(1))
qed

lemma concat_chunks: "0 < n \<Longrightarrow> concat (chunks n xs) = xs"
proof (induction n xs rule: chunks.induct)
  case (1 n xs)
  then show ?case by (subst chunks.simps) auto
qed

lemma length_concat_const:
  "\<forall>c \<in> set cs. length c = n \<Longrightarrow> length (concat cs) = length cs * n"
  by (induction cs) auto

lemma is_mat_iff [shape_simps]:
  "is_mat n m A \<longleftrightarrow> length A = n \<and> (\<forall>r \<in> set A. length r = m)"
  by (simp add: is_mat_def list_all_iff)

lemma is_t3_iff [shape_simps]:
  "is_t3 a b c X \<longleftrightarrow> length X = a \<and> (\<forall>M \<in> set X. is_mat b c M)"
  by (simp add: is_t3_def list_all_iff)

lemma is_mat_nth:
  "is_mat n m A \<Longrightarrow> i < n \<Longrightarrow> length (A ! i) = m"
  by (auto simp: is_mat_iff)

lemma width_is_mat: "is_mat n m A \<Longrightarrow> 0 < n \<Longrightarrow> width A = m"
  by (cases A) (auto simp: width_def is_mat_iff)

lemma is_mat_map [shape_simps]:
  "is_mat n m (map f xs) \<longleftrightarrow> length xs = n \<and> (\<forall>x \<in> set xs. length (f x) = m)"
  by (simp add: is_mat_iff)

lemma length_dropout [simp]: "length (dropout p tr keep x) = length x"
  by (simp add: dropout_def)

lemma length_dropout_mat [simp]: "length (dropout_mat p tr keep X) = length X"
  by (simp add: dropout_mat_def)

lemma dropout_mat_Nil_iff [simp]: "dropout_mat p tr keep X = [] \<longleftrightarrow> X = []"
  using length_dropout_mat[of p tr keep X] by (metis length_0_conv)

lemma dropout_mat_nth:
  "i < length X \<Longrightarrow> dropout_mat p tr keep X ! i = dropout p tr (keep i) (X ! i)"
  by (simp add: dropout_mat_def dropout_def)

lemma dropout_eval [simp]: "dropout p False keep x = x"
  by (simp add: dropout_def)

lemma dropout_mat_eval [simp]: "dropout_mat p False keep X = X"
  by (simp add: dropout_mat_def)

lemma relu_zero [simp]: "relu 0 = 0"
  by (simp add: relu_def)

lemma relu_nonneg: "0 \<le> relu v"
  by (simp add: relu_def)

lemma dot_zero_right:
  "set w \<subseteq> {0} \<Longrightarrow> dot v w = 0"
proof (induction v arbitrary: w)
  case Nil
  then show ?case by (simp add: dot_def)
next
  case (Cons a v)
  then show ?case by (cases w) (auto simp: dot_def)
qed

lemma length_matvec [simp]: "length (matvec W x) = length W"
  by (simp add: matvec_def)

lemma sum_list_map_divide:
  "sum_list (map (\<lambda>x. f x / c) xs) = sum_list (map f xs) / (c :: real)"
  by (induction xs) (auto simp: add_divide_distrib)

lemma sum_list_exp_pos: "xs \<noteq> [] \<Longrightarrow> 0 < sum_list (map exp xs :: real list)"
proof (induction xs)
  case Nil
  then show ?case by simp
next
  case (Cons a xs)
  have "0 \<le> sum_list (map exp xs :: real list)"
    by (induction xs) (auto intro: add_nonneg_nonneg)
  then show ?case by (simp add: add_pos_nonneg)
qed

lemma length_transpose_const:
  "xs \<noteq> [] \<Longrightarrow> \<forall>x \<in> set xs. length x = n \<Longrightarrow> length (transpose xs) = n"
proof (induction xs)
  case Nil
  then show ?case by simp
next
  case (Cons x xs)
  then show ?case by (cases "xs = []") (auto simp: length_transpose)
qed

lemma concat_map_concat_eq: "concat (concat xss) = concat (map concat xss)"
  by (induction xss) auto

lemma all_zero_iff: "all_zero A \<longleftrightarrow> (\<forall>r \<in> set A. set r \<subseteq> {0})"
  by (auto simp: all_zero_def list_all_iff)

lemma all_zero_map_map:
  "all_zero A \<Longrightarrow> f 0 = 0 \<Longrightarrow> all_zero (map (map f) A)"
  by (auto simp: all_zero_iff)

lemma concat_all_zero:
  assumes "all_zero A" "length (concat A) = n"
  shows "concat A = replicate n 0"
proof (rule replicate_eqI)
  show "length (concat A) = n" by (rule assms(2))
  show "y = 0" if "y \<in> set (concat A)" for y
    using assms(1) that by (auto simp: all_zero_iff)
qed

lemma is_mat_concat_length: "is_mat n m A \<Longrightarrow> length (concat A) = n * m"
  using length_concat_const[of A m] by (simp add: is_mat_iff)

lemma length_concat_map_const:
  "(\<And>t. t \<in> set xs \<Longrightarrow> length (f t) = n) \<Longrightarrow> length (concat (map f xs)) = length xs * n"
  by (induction xs) auto

lemma sum_list_zero: "set xs \<subseteq> {0 :: real} \<Longrightarrow> sum_list xs = 0"
  by (induction xs) auto

lemma chunks_shape:
  "0 < n \<Longrightarrow> length xs = r * n \<Longrightarrow> length (chunks n xs) = r \<and> (\<forall>c \<in> set (chunks n xs). length c = n)"
proof (induction r arbitrary: xs)
  case 0
  then show ?case by simp
next
  case (Suc r)
  then have "xs \<noteq> []" by auto
  then have "chunks n xs = take n xs # chunks n (drop n xs)"
    using Suc.prems by (subst chunks.simps) simp
  moreover have "length (drop n xs) = r * n" using Suc.prems by simp
  moreover note Suc.IH[OF Suc.prems(1) this]
  ultimately show ?case using Suc.prems by simp
qed

lemma reshape_rows_Some:
  "length xs = r * n \<Longrightarrow> 0 < r \<Longrightarrow> 0 < n \<Longrightarrow> reshape_rows r xs = Some (chunks n xs)"
  by (auto simp: reshape_rows_def)

lemma reshape_rows_None:
  "length xs mod r \<noteq> 0 \<Longrightarrow> reshape_rows r xs = None"
  by (simp add: reshape_rows_def)

lemma transpose_transpose_rect:
  assumes "is_mat n m A" "0 < m"
  shows "transpose (transpose A) = A"
proof -
  have "map length A = replicate (length A) m"
    using assms(1) by (intro replicate_eqI) (auto simp: is_mat_iff)
  then have "sorted (rev (map length A))" by simp
  moreover have "takeWhile (\<lambda>x. x \<noteq> []) A = A"
    using assms by (auto simp: is_mat_iff takeWhile_eq_all_conv)
  ultimately show ?thesis by (simp add: transpose_transpose)
qed

lemma matmul_transpose:
  "is_mat n m K \<Longrightarrow> 0 < m \<Longrightarrow> matmul Q (transpose K) = map (\<lambda>q. map (dot q) K) Q"
  by (simp add: matmul_def transpose_transpose_rect)

lemma length_softmax [simp]: "length (softmax v) = length v"
  by (simp add: softmax_def)

lemma softmax_sum: "v \<noteq> [] \<Longrightarrow> sum_list (softmax v) = 1"
  using sum_list_exp_pos[of v] by (simp add: softmax_def sum_list_map_divide)

lemma softmax_pos: "p \<in> set (softmax v) \<Longrightarrow> 0 < p"
proof -
  assume "p \<in> set (softmax v)"
  then obtain x where "x \<in> set v" "p = exp x / sum_list (map exp v)"
    by (auto simp: softmax_def)
  moreover have "v \<noteq> []" using \<open>x \<in> set v\<close> by auto
  then have "0 < sum_list (map exp v)" by (rule sum_list_exp_pos)
  ultimately show ?thesis by simp
qed

lemma dropout_keep_all: "dropout p True (\<lambda>_. True) x = map (\<lambda>v. v / (1 - p)) x"
  by (rule nth_equalityI) (simp_all add: dropout_def)

lemma dropout_mat_keep_all:
  "dropout_mat p True (\<lambda>_ _. True) X = map (map (\<lambda>v. v / (1 - p))) X"
  by (rule nth_equalityI) (simp_all add: dropout_mat_nth dropout_keep_all)

lemma view_cols_concat:
  assumes "is_mat T n X" "0 < T" "0 < n"
  shows "view_cols n (concat X) = Some X"
proof -
  have len: "length (concat X) = T * n" using assms(1) by (simp add: is_mat_concat_length)
  then have "length (concat X) \<noteq> 0" using assms(2,3) by simp
  then have "concat X \<noteq> []" by (metis list.size(3))
  moreover have "chunks n (concat X) = X"
    using assms(1,3) by (intro chunks_concat) (auto simp: is_mat_iff)
  ultimately show ?thesis using len assms(3) by (simp add: view_cols_def)
qed

lemma concat_slices:
  "concat (map (\<lambda>h. take d (drop (h * d) r)) [0..<n]) = take (n * d) r"
proof (induction n)
  case 0
  then show ?case by simp
next
  case (Suc n)
  have "take (Suc n * d) r = take (n * d + d) r" by (simp add: add.commute)
  also have "\<dots> = take (n * d) r @ take d (drop (n * d) r)" by (rule take_add)
  finally have "take (Suc n * d) r = take (n * d) r @ take d (drop (n * d) r)" .
  with Suc show ?case by simp
qed

lemma transpose_map_rect:
  assumes "0 < H" "\<forall>h < H. length (f h) = T"
  shows "transpose (map f [0..<H]) = map (\<lambda>t. map (\<lambda>h. f h ! t) [0..<H]) [0..<T]"
  using assms by (subst transpose_rectangle[where n = T]) auto

lemma those_None_mem: "None \<in> set xs \<Longrightarrow> those xs = None"
  by (induction xs) (auto split: option.splits)

lemma view_cols_length:
  assumes "view_cols n xs = Some rows"
  shows "length rows * n = length xs \<and> (\<forall>r \<in> set rows. length r = n)"
proof -
  from assms have n: "0 < n" and m: "length xs mod n = 0" and rows: "rows = chunks n xs"
    by (auto simp: view_cols_def split: if_splits)
  have e: "length xs div n * n = length xs" using m by (metis add.right_neutral div_mult_mod_eq)
  have "length (chunks n xs) = length xs div n \<and> (\<forall>c \<in> set (chunks n xs). length c = n)"
    using chunks_shape[OF n e[symmetric]] .
  then show ?thesis using rows e by simp
qed

lemma linear_rows_Some:
  assumes "is_mat n_out n_in (lin_weight L)" "0 < n_out" "\<forall>r \<in> set X. length r = n_in"
  shows "linear_rows L X = Some (map (linear_fwd L) X)"
  using assms by (simp add: linear_rows_def width_is_mat list_all_iff)

lemma linear_rows_SomeD:
  "linear_rows L X = Some Y \<Longrightarrow> Y = map (linear_fwd L) X"
  by (simp add: linear_rows_def split: if_splits)

lemma length_linear_fwd:
  "linear_wf n_in n_out L \<Longrightarrow> length (linear_fwd L x) = n_out"
  by (auto simp: linear_wf_def linear_fwd_def vadd_def is_mat_iff split: option.splits)

lemma bind_eq_NoneI: "(\<And>y. x = Some y \<Longrightarrow> f y = None) \<Longrightarrow> Option.bind x f = None"
  by (cases x) auto

lemma relu_mat_shape: "is_mat n m A \<Longrightarrow> is_mat n m (relu_mat A)"
  by (auto simp: relu_mat_def shape_simps)

lemma matmul_shape:
  assumes "length A = n" "is_mat k m B" "0 < k"
  shows "is_mat n m (matmul A B)"
proof -
  have "B \<noteq> []" using assms(2,3) by (auto simp: is_mat_iff)
  then have "length (transpose B) = m"
    using assms(2) by (intro length_transpose_const) (auto simp: is_mat_iff)
  then show ?thesis using assms(1) by (simp add: matmul_def is_mat_iff)
qed

lemma linear_rows_shape:
  assumes "linear_wf n_in n_out L" "0 < n_out" "is_mat T n_in X"
  shows "linear_rows L X = Some (map (linear_fwd L) X) \<and> is_mat T n_out (map (linear_fwd L) X)"
  using assms linear_rows_Some[of n_out n_in L X] length_linear_fwd[OF assms(1)]
  by (auto simp: linear_wf_def is_mat_iff)

lemma madd_shape: "is_mat n m A \<Longrightarrow> is_mat n m B \<Longrightarrow> is_mat n m (madd A B)"
  by (auto simp: is_mat_iff madd_def vadd_def set_zip)

lemma dropout_mat_shape: "is_mat n m A \<Longrightarrow> is_mat n m (dropout_mat p tr keep A)"
  by (cases tr) (auto simp: is_mat_iff dropout_mat_def)

lemma those_map_Some:
  "(\<And>x. x \<in> set xs \<Longrightarrow> f x = Some (g x)) \<Longrightarrow> those (map f xs) = Some (map g xs)"
  by (induction xs) auto

lemma vadd_residual_twice: "vadd a (vadd b a) = vadd (map (\<lambda>v. 2 * v) a) b"
proof (induction a arbitrary: b)
  case (Cons v a)
  then show ?case by (cases b) (simp_all add: vadd_def)
qed (simp add: vadd_def)

lemma madd_residual_twice: "madd h (madd y h) = madd (map (map (\<lambda>v. 2 * v)) h) y"
proof (induction h arbitrary: y)
  case (Cons r h)
  then show ?case by (cases y) (simp_all add: madd_def vadd_residual_twice)
qed (simp add: madd_def)

lemma sum_sq_div_bound:
  fixes S e :: real and n :: nat
  assumes "0 \<le> S" "0 < e" "0 < n"
  shows "S / (S / real n + e) \<le> real n"
proof -
  have p: "0 < S / real n + e" using assms by (simp add: add_nonneg_pos)
  have "S \<le> real n * (S / real n + e)" using assms by (simp add: distrib_left)
  then show ?thesis using p by (simp add: divide_le_eq)
qed

end
