(* ===== verification/Extractor.thy ===== *)
theory Extractor
  imports Prelude
begin

text \<open>
  \<^verbatim>\<open>AudioExtractor\<close> (\<^verbatim>\<open>audio_model.py\<close>, lines 9-48): four convolutions with
  kernels of height 1 over a spectrogram of 2 channels, time frames and 128 frequency
  bins, then \<^verbatim>\<open>transpose(2, 1)\<close> and \<^verbatim>\<open>reshape([batch_size, 512, -1])\<close>.
  A sample is a \<open>tensor3\<close> indexed channel, time, frequency. A convolution layer is the
  record \<open>conv2d\<close> with the hyper-parameters of its \<^verbatim>\<open>nn.Conv2d\<close> call; its
  kernel height, vertical padding and vertical stride are 1, 0 and 1 in all four layers,
  so the weight is stored as \<open>out \<times> in \<times> k\<close> without the singleton height axis.
  \<open>conv2d_fwd\<close> fails (\<open>None\<close>) where torch raises: wrong channel count, or a
  padded input narrower than the kernel.
  The lemmas show that the layers act on each time frame separately
  (\<open>extract_frame\<close>), that zero frames stay zero, and what the hard-coded 512 of the
  reshape does to inputs of other lengths.
\<close>

record conv2d =
  in_channels :: nat
  out_channels :: nat
  kernel_w :: nat
  padding_w :: nat
  stride_w :: nat
  conv_weight :: "real list list list"

definition pad_row :: "nat \<Rightarrow> vec \<Rightarrow> vec" where
  "pad_row p r = replicate p 0 @ r @ replicate p 0"

definition conv_out_len :: "nat \<Rightarrow> nat \<Rightarrow> nat \<Rightarrow> nat \<Rightarrow> nat" where
  "conv_out_len n k p s = (n + 2 * p - k) div s + 1"

definition time_len :: "tensor3 \<Rightarrow> nat" where
  "time_len x = (case x of [] \<Rightarrow> 0 | ch # _ \<Rightarrow> length ch)"

definition freq_len :: "tensor3 \<Rightarrow> nat" where
  "freq_len x = (case x of [] \<Rightarrow> 0 | ch # _ \<Rightarrow> width ch)"

definition frame :: "tensor3 \<Rightarrow> nat \<Rightarrow> mat" where
  "frame x t = map (\<lambda>ch. ch ! t) x"

definition conv_point :: "conv2d \<Rightarrow> mat \<Rightarrow> mat \<Rightarrow> nat \<Rightarrow> real" where
  "conv_point c wo f j =
     sum_list (map2 (\<lambda>wc row. dot wc (take (kernel_w c) (drop (j * stride_w c) (pad_row (padding_w c) row)))) wo f)"

definition conv_row :: "conv2d \<Rightarrow> mat \<Rightarrow> mat \<Rightarrow> vec" where
  "conv_row c wo f =
     map (conv_point c wo f) [0..<conv_out_len (width f) (kernel_w c) (padding_w c) (stride_w c)]"

definition conv_frame :: "conv2d \<Rightarrow> mat \<Rightarrow> mat" where
  "conv_frame c f = map (\<lambda>wo. conv_row c wo f) (conv_weight c)"

definition conv2d_fwd :: "conv2d \<Rightarrow> tensor3 \<Rightarrow> tensor3 option" where
  "conv2d_fwd c x =
     (if length x \<noteq> in_channels c \<or> freq_len x + 2 * padding_w c < kernel_w c then None
      else Some (map (\<lambda>wo. map (\<lambda>t. conv_row c wo (frame x t)) [0..<time_len x]) (conv_weight c)))"

definition conv_wf :: "conv2d \<Rightarrow> bool" where
  "conv_wf c \<longleftrightarrow> 0 < in_channels c \<and> 0 < stride_w c
     \<and> is_t3 (out_channels c) (in_channels c) (kernel_w c) (conv_weight c)"

definition relu3 :: "tensor3 \<Rightarrow> tensor3" where
  "relu3 = map relu_mat"

record audio_extractor =
  conv1 :: conv2d
  conv2 :: conv2d
  conv3 :: conv2d
  conv4 :: conv2d

definition Conv2d :: "nat \<Rightarrow> nat \<Rightarrow> nat \<Rightarrow> nat \<Rightarrow> nat \<Rightarrow> real list list list \<Rightarrow> conv2d" where
  "Conv2d cin cout k p s w =
     \<lparr>in_channels = cin, out_channels = cout, kernel_w = k, padding_w = p, stride_w = s,
      conv_weight = w\<rparr>"

definition AudioExtractor_init ::
  "real list list list \<Rightarrow> real list list list \<Rightarrow> real list list list \<Rightarrow> real list list list
   \<Rightarrow> audio_extractor" where
  "AudioExtractor_init w1 w2 w3 w4 =
     \<lparr>conv1 = Conv2d 2 8 4 1 2 w1, conv2 = Conv2d 8 8 7 3 1 w2,
      conv3 = Conv2d 8 24 4 1 2 w3, conv4 = Conv2d 24 24 7 3 1 w4\<rparr>"

definition AudioExtractor_forward :: "audio_extractor \<Rightarrow> tensor3 \<Rightarrow> mat option" where
  "AudioExtractor_forward e x = do {
     x1 \<leftarrow> conv2d_fwd (conv1 e) x;
     x2 \<leftarrow> conv2d_fwd (conv2 e) (relu3 x1);
     x3 \<leftarrow> conv2d_fwd (conv3 e) (relu3 x2);
     x4 \<leftarrow> conv2d_fwd (conv4 e) (relu3 x3);
     reshape_rows 512 (concat (concat (transpose x4)))
   }"

text \<open>The extractor read one time frame at a time (a derived view, not code).\<close>

definition extract_frame :: "audio_extractor \<Rightarrow> mat \<Rightarrow> mat" where
  "extract_frame e f =
     conv_frame (conv4 e) (relu_mat (conv_frame (conv3 e)
       (relu_mat (conv_frame (conv2 e) (relu_mat (conv_frame (conv1 e) f))))))"

lemma frame_shape:
  "is_t3 C T F x \<Longrightarrow> t < T \<Longrightarrow> is_mat C F (frame x t)"
  by (auto simp: frame_def shape_simps)

lemma time_len_t3: "is_t3 C T F x \<Longrightarrow> 0 < C \<Longrightarrow> time_len x = T"
  by (cases x) (auto simp: time_len_def shape_simps)

lemma freq_len_t3: "is_t3 C T F x \<Longrightarrow> 0 < C \<Longrightarrow> 0 < T \<Longrightarrow> freq_len x = F"
  by (cases x) (auto simp: freq_len_def width_is_mat shape_simps)

lemma conv_frame_shape:
  assumes "conv_wf c" "is_mat (in_channels c) F f"
  shows "is_mat (out_channels c) (conv_out_len F (kernel_w c) (padding_w c) (stride_w c)) (conv_frame c f)"
proof -
  have "width f = F" using assms by (simp add: width_is_mat conv_wf_def)
  then show ?thesis using assms by (auto simp: conv_frame_def conv_row_def conv_wf_def shape_simps)
qed

lemma conv2d_fwd_step:
  assumes "conv_wf c" "is_t3 (in_channels c) T F x" "0 < T"
    and "kernel_w c \<le> F + 2 * padding_w c"
  shows "\<exists>y. conv2d_fwd c x = Some y
    \<and> is_t3 (out_channels c) T (conv_out_len F (kernel_w c) (padding_w c) (stride_w c)) y
    \<and> (\<forall>t < T. frame y t = conv_frame c (frame x t))"
proof -
  have C: "0 < in_channels c" using assms(1) by (simp add: conv_wf_def)
  have tl: "time_len x = T" and fl: "freq_len x = F"
    using assms(2,3) C by (simp_all add: time_len_t3 freq_len_t3)
  let ?y = "map (\<lambda>wo. map (\<lambda>t. conv_row c wo (frame x t)) [0..<T]) (conv_weight c)"
  have some: "conv2d_fwd c x = Some ?y"
    using assms tl fl by (simp add: conv2d_fwd_def shape_simps)
  have fr: "frame ?y t = conv_frame c (frame x t)" if "t < T" for t
    using that by (simp add: frame_def conv_frame_def)
  have "is_t3 (out_channels c) T (conv_out_len F (kernel_w c) (padding_w c) (stride_w c)) ?y"
  proof -
    have "length (conv_row c wo (frame x t)) = conv_out_len F (kernel_w c) (padding_w c) (stride_w c)"
      if "t < T" for wo t
    proof -
      have "width (frame x t) = F"
        using frame_shape[OF assms(2) that] C by (simp add: width_is_mat)
      then show ?thesis by (simp add: conv_row_def)
    qed
    then show ?thesis using assms(1) by (auto simp: conv_wf_def shape_simps)
  qed
  with some fr show ?thesis by blast
qed

lemma relu3_step:
  assumes "is_t3 C T F y"
  shows "is_t3 C T F (relu3 y) \<and> (\<forall>t < T. frame (relu3 y) t = relu_mat (frame y t))"
  using assms by (auto simp: relu3_def relu_mat_def frame_def shape_simps)

lemma transpose_t3:
  assumes "is_t3 C T L y" "0 < C"
  shows "transpose y = map (frame y) [0..<T]"
proof (rule nth_equalityI)
  have lens: "\<forall>ch \<in> set y. length ch = T" using assms(1) by (auto simp: shape_simps)
  have "y \<noteq> []" using assms by (auto simp: shape_simps)
  then have lt: "length (transpose y) = T"
    using lens by (rule length_transpose_const)
  then show "length (transpose y) = length (map (frame y) [0..<T])" by simp
  fix i assume "i < length (transpose y)"
  then have "i < T" using lt by simp
  then have "filter (\<lambda>ys. i < length ys) y = y" using lens by (auto intro: filter_True)
  then show "transpose y ! i = map (frame y) [0..<T] ! i"
    using \<open>i < T\<close> lt by (simp add: nth_transpose frame_def)
qed

lemma conv_out_len_extractor:
  "conv_out_len 128 4 1 2 = 64" "conv_out_len 64 7 3 1 = 64"
  "conv_out_len 64 4 1 2 = 32" "conv_out_len 32 7 3 1 = 32"
  by (simp_all add: conv_out_len_def)

lemma conv_wf_Conv2d [simp]:
  "conv_wf (Conv2d cin cout k p s w) \<longleftrightarrow> 0 < cin \<and> 0 < s \<and> is_t3 cout cin k w"
  by (simp add: conv_wf_def Conv2d_def)

lemma Conv2d_sel [simp]:
  "in_channels (Conv2d cin cout k p s w) = cin" "out_channels (Conv2d cin cout k p s w) = cout"
  "kernel_w (Conv2d cin cout k p s w) = k" "padding_w (Conv2d cin cout k p s w) = p"
  "stride_w (Conv2d cin cout k p s w) = s" "conv_weight (Conv2d cin cout k p s w) = w"
  by (simp_all add: Conv2d_def)

text \<open>One convolution followed by a ReLU, as \<^verbatim>\<open>F.relu(self.convN(x))\<close>.\<close>

lemma conv_relu_step:
  assumes "conv_wf c" "is_t3 (in_channels c) T F x" "0 < T"
    and "kernel_w c \<le> F + 2 * padding_w c"
    and "L = conv_out_len F (kernel_w c) (padding_w c) (stride_w c)"
  shows "\<exists>y. conv2d_fwd c x = Some y \<and> is_t3 (out_channels c) T L (relu3 y)
    \<and> (\<forall>t < T. frame (relu3 y) t = relu_mat (conv_frame c (frame x t)))"
proof -
  obtain y where y: "conv2d_fwd c x = Some y" "is_t3 (out_channels c) T L y"
    "\<forall>t < T. frame y t = conv_frame c (frame x t)"
    using conv2d_fwd_step[OF assms(1-4)] assms(5) by blast
  then show ?thesis using relu3_step[OF y(2)] by auto
qed

lemma extractor_stack:
  assumes "is_t3 8 2 4 w1" "is_t3 8 8 7 w2" "is_t3 24 8 4 w3" "is_t3 24 24 7 w4"
    and "is_t3 2 T 128 x" "0 < T"
    and e: "e = AudioExtractor_init w1 w2 w3 w4"
  shows "\<exists>y1 y2 y3 y4. conv2d_fwd (conv1 e) x = Some y1
   \<and> conv2d_fwd (conv2 e) (relu3 y1) = Some y2 \<and> conv2d_fwd (conv3 e) (relu3 y2) = Some y3
   \<and> conv2d_fwd (conv4 e) (relu3 y3) = Some y4 \<and> is_t3 24 T 32 y4
   \<and> (\<forall>t < T. frame y4 t = extract_frame e (frame x t))"
proof -
  have e: "conv1 e = Conv2d 2 8 4 1 2 w1" "conv2 e = Conv2d 8 8 7 3 1 w2"
    "conv3 e = Conv2d 8 24 4 1 2 w3" "conv4 e = Conv2d 24 24 7 3 1 w4"
    by (simp_all add: e AudioExtractor_init_def)
  obtain y1 where y1: "conv2d_fwd (conv1 e) x = Some y1" "is_t3 8 T 64 (relu3 y1)"
    "\<forall>t < T. frame (relu3 y1) t = relu_mat (conv_frame (conv1 e) (frame x t))"
    using conv_relu_step[of "conv1 e" T 128 x 64] assms(1,5,6) e
    by (auto simp: conv_out_len_def)
  obtain y2 where y2: "conv2d_fwd (conv2 e) (relu3 y1) = Some y2" "is_t3 8 T 64 (relu3 y2)"
    "\<forall>t < T. frame (relu3 y2) t = relu_mat (conv_frame (conv2 e) (frame (relu3 y1) t))"
    using conv_relu_step[of "conv2 e" T 64 "relu3 y1" 64] assms(2,6) y1(2) e
    by (auto simp: conv_out_len_def)
  obtain y3 where y3: "conv2d_fwd (conv3 e) (relu3 y2) = Some y3" "is_t3 24 T 32 (relu3 y3)"
    "\<forall>t < T. frame (relu3 y3) t = relu_mat (conv_frame (conv3 e) (frame (relu3 y2) t))"
    using conv_relu_step[of "conv3 e" T 64 "relu3 y2" 32] assms(3,6) y2(2) e
    by (auto simp: conv_out_len_def)
  obtain y4 where y4: "conv2d_fwd (conv4 e) (relu3 y3) = Some y4" "is_t3 24 T 32 y4"
    "\<forall>t < T. frame y4 t = conv_frame (conv4 e) (frame (relu3 y3) t)"
    using conv2d_fwd_step[of "conv4 e" T 32 "relu3 y3"] assms(4,6) y3(2) e
    by (auto simp: conv_out_len_def)
  have "\<forall>t < T. frame y4 t = extract_frame e (frame x t)"
    using y1(3) y2(3) y3(3) y4(3) by (simp add: extract_frame_def)
  with y1(1) y2(1) y3(1) y4 show ?thesis by blast
qed

theorem AudioExtractor_forward_eq:
  assumes "is_t3 8 2 4 w1" "is_t3 8 8 7 w2" "is_t3 24 8 4 w3" "is_t3 24 24 7 w4"
    and "is_t3 2 T 128 x" "0 < T"
    and e: "e = AudioExtractor_init w1 w2 w3 w4"
  shows "AudioExtractor_forward e x =
    reshape_rows 512 (concat (map (\<lambda>t. concat (extract_frame e (frame x t))) [0..<T]))"
proof -
  obtain y1 y2 y3 y4 where y: "conv2d_fwd (conv1 e) x = Some y1"
    "conv2d_fwd (conv2 e) (relu3 y1) = Some y2" "conv2d_fwd (conv3 e) (relu3 y2) = Some y3"
    "conv2d_fwd (conv4 e) (relu3 y3) = Some y4" "is_t3 24 T 32 y4"
    "\<forall>t < T. frame y4 t = extract_frame e (frame x t)"
    using extractor_stack[OF assms] by blast
  have "transpose y4 = map (frame y4) [0..<T]"
    using y(5) by (rule transpose_t3) simp
  then have "concat (concat (transpose y4)) = concat (map (\<lambda>t. concat (frame y4 t)) [0..<T])"
    by (simp add: concat_map_concat_eq comp_def)
  also have m: "map (\<lambda>t. concat (frame y4 t)) [0..<T]
      = map (\<lambda>t. concat (extract_frame e (frame x t))) [0..<T]"
    using y(6) by (intro map_cong) auto
  finally have "concat (concat (transpose y4))
      = concat (map (\<lambda>t. concat (extract_frame e (frame x t))) [0..<T])" .
  with y(1-4) show ?thesis by (simp add: AudioExtractor_forward_def)
qed

lemma extract_frame_shape:
  assumes "is_t3 8 2 4 w1" "is_t3 8 8 7 w2" "is_t3 24 8 4 w3" "is_t3 24 24 7 w4"
    and "is_mat 2 128 f"
  shows "is_mat 24 32 (extract_frame (AudioExtractor_init w1 w2 w3 w4) f)"
proof -
  let ?e = "AudioExtractor_init w1 w2 w3 w4"
  have e: "conv1 ?e = Conv2d 2 8 4 1 2 w1" "conv2 ?e = Conv2d 8 8 7 3 1 w2"
    "conv3 ?e = Conv2d 8 24 4 1 2 w3" "conv4 ?e = Conv2d 24 24 7 3 1 w4"
    by (simp_all add: AudioExtractor_init_def)
  have f1: "is_mat 8 64 (relu_mat (conv_frame (conv1 ?e) f))"
    using conv_frame_shape[of "conv1 ?e" 128 f] assms(1,5) e
    by (auto simp: conv_out_len_def intro: relu_mat_shape)
  have f2: "is_mat 8 64 (relu_mat (conv_frame (conv2 ?e) (relu_mat (conv_frame (conv1 ?e) f))))"
    using conv_frame_shape[of "conv2 ?e" 64] f1 assms(2) e
    by (auto simp: conv_out_len_def intro: relu_mat_shape)
  have f3: "is_mat 24 32 (relu_mat (conv_frame (conv3 ?e) (relu_mat (conv_frame (conv2 ?e)
      (relu_mat (conv_frame (conv1 ?e) f))))))"
    using conv_frame_shape[of "conv3 ?e" 64] f2 assms(3) e
    by (auto simp: conv_out_len_def intro: relu_mat_shape)
  show ?thesis
    using conv_frame_shape[of "conv4 ?e" 32] f3 assms(4) e
    by (auto simp: conv_out_len_def extract_frame_def)
qed

lemma length_extracted:
  assumes "is_t3 8 2 4 w1" "is_t3 8 8 7 w2" "is_t3 24 8 4 w3" "is_t3 24 24 7 w4"
    and "is_t3 2 T 128 x"
  shows "length (concat (map (\<lambda>t. concat (extract_frame (AudioExtractor_init w1 w2 w3 w4)
      (frame x t))) [0..<T])) = T * 768"
proof -
  have "length (concat (extract_frame (AudioExtractor_init w1 w2 w3 w4) (frame x t))) = 768"
    if "t < T" for t
    using extract_frame_shape[OF assms(1-4) frame_shape[OF assms(5) that]]
    by (simp add: is_mat_concat_length)
  then show ?thesis by (subst length_concat_map_const[where n = 768]) auto
qed

lemma conv_frame_zero:
  assumes "all_zero f"
  shows "all_zero (conv_frame c f)"
proof -
  have "conv_point c wo f j = 0" for wo j
  proof -
    have "dot wc (take k (drop d (pad_row p row))) = 0" if "row \<in> set f" for wc row k d p
    proof (rule dot_zero_right)
      have "set row \<subseteq> {0}" using assms that by (auto simp: all_zero_iff)
      then show "set (take k (drop d (pad_row p row))) \<subseteq> {0}"
        by (auto simp: pad_row_def dest!: in_set_takeD in_set_dropD)
    qed
    then show ?thesis
      unfolding conv_point_def by (intro sum_list_zero) (auto dest!: set_zip_rightD)
  qed
  then show ?thesis by (auto simp: all_zero_iff conv_frame_def conv_row_def)
qed

lemma extract_frame_zero:
  "all_zero f \<Longrightarrow> all_zero (extract_frame e f)"
  by (simp add: extract_frame_def relu_mat_def conv_frame_zero all_zero_map_map)

lemma odd_frames_mod:
  assumes "odd (T::nat)"
  shows "(T * 768) mod 512 \<noteq> 0"
proof -
  obtain k where "T = 2 * k + 1" using assms oddE by blast
  then have "T * 768 = 256 + (3 * k + 1) * 512" by simp
  then have "(T * 768) mod 512 = 256 mod 512" by (simp only: mod_mult_self1)
  then show ?thesis by simp
qed

lemma even_frames_len:
  assumes "even (T::nat)"
  shows "T * 768 = 512 * (3 * T div 2)"
proof -
  obtain k where "T = 2 * k" using assms by blast
  then show ?thesis by simp
qed

subsection \<open>Properties of the extractor\<close>

lemma extractor_512_forward:
  assumes "is_t3 8 2 4 w1" "is_t3 8 8 7 w2" "is_t3 24 8 4 w3" "is_t3 24 24 7 w4"
    and "is_t3 2 512 128 x"
  shows "AudioExtractor_forward (AudioExtractor_init w1 w2 w3 w4) x =
    Some (map (\<lambda>t. concat (extract_frame (AudioExtractor_init w1 w2 w3 w4) (frame x t))) [0..<512])"
proof -
  let ?g = "\<lambda>t. concat (extract_frame (AudioExtractor_init w1 w2 w3 w4) (frame x t))"
  have len: "length (concat (map ?g [0..<512])) = 512 * 768"
    using length_extracted[OF assms] by simp
  have "length (?g t) = 768" if "t < 512" for t
    using extract_frame_shape[OF assms(1-4) frame_shape[OF assms(5) that]]
    by (simp add: is_mat_concat_length)
  then have rows: "\<forall>c \<in> set (map ?g [0..<512]). length c = 768" by auto
  have "reshape_rows 512 (concat (map ?g [0..<512])) = Some (map ?g [0..<512])"
    using reshape_rows_Some[OF len] chunks_concat[OF _ rows] by simp
  then show ?thesis
    using AudioExtractor_forward_eq[OF assms _ refl] by simp
qed

text \<open>
  C1. With the input length the code hard-codes (512 frames of 128 frequency bins on 2
  channels), \<^verbatim>\<open>AudioExtractor.forward\<close> succeeds and its row \<open>t\<close> is the
  24 x 32 feature map of time frame \<open>t\<close> alone, flattened channel-major: the
  convolutions never mix time frames and the reshape keeps one frame per row.
\<close>

theorem AudioExtractor_512_frames:
  assumes "is_t3 8 2 4 w1" "is_t3 8 8 7 w2" "is_t3 24 8 4 w3" "is_t3 24 24 7 w4"
    and "is_t3 2 512 128 x"
  shows "AudioExtractor_forward (AudioExtractor_init w1 w2 w3 w4) x =
    Some (map (\<lambda>t. concat (extract_frame (AudioExtractor_init w1 w2 w3 w4) (frame x t))) [0..<512])"
  using extractor_512_forward[OF assms] .

lemma extractor_512_rows:
  assumes "is_t3 8 2 4 w1" "is_t3 8 8 7 w2" "is_t3 24 8 4 w3" "is_t3 24 24 7 w4"
    and "is_t3 2 512 128 x" "t < 512"
  shows "\<exists>rows. AudioExtractor_forward (AudioExtractor_init w1 w2 w3 w4) x = Some rows
    \<and> rows ! t = concat (extract_frame (AudioExtractor_init w1 w2 w3 w4) (frame x t))
    \<and> length (rows ! t) = 768"
  using extractor_512_forward[OF assms(1-5)]
    extract_frame_shape[OF assms(1-4) frame_shape[OF assms(5,6)]] assms(6)
  by (simp add: is_mat_concat_length)

lemma extractor_512_shape:
  assumes "is_t3 8 2 4 w1" "is_t3 8 8 7 w2" "is_t3 24 8 4 w3" "is_t3 24 24 7 w4"
    and "is_t3 2 512 128 x"
  shows "\<exists>rows. AudioExtractor_forward (AudioExtractor_init w1 w2 w3 w4) x = Some rows
    \<and> is_mat 512 768 rows"
proof -
  have "length (concat (extract_frame (AudioExtractor_init w1 w2 w3 w4) (frame x t))) = 768"
    if "t < 512" for t
    using extract_frame_shape[OF assms(1-4) frame_shape[OF assms(5) that]]
    by (simp add: is_mat_concat_length)
  then show ?thesis using extractor_512_forward[OF assms] by (auto simp: is_mat_iff)
qed

lemma extractor_zero_row:
  assumes "is_t3 8 2 4 w1" "is_t3 8 8 7 w2" "is_t3 24 8 4 w3" "is_t3 24 24 7 w4"
    and "is_t3 2 512 128 x" "t < 512" "all_zero (frame x t)"
  shows "\<exists>rows. AudioExtractor_forward (AudioExtractor_init w1 w2 w3 w4) x = Some rows
    \<and> rows ! t = replicate 768 0"
proof -
  obtain rows where r: "AudioExtractor_forward (AudioExtractor_init w1 w2 w3 w4) x = Some rows"
    "rows ! t = concat (extract_frame (AudioExtractor_init w1 w2 w3 w4) (frame x t))"
    "length (rows ! t) = 768"
    using extractor_512_rows[OF assms(1-6)] by blast
  have "concat (extract_frame (AudioExtractor_init w1 w2 w3 w4) (frame x t)) = replicate 768 0"
    by (rule concat_all_zero[OF extract_frame_zero[OF assms(7)]]) (use r(2,3) in simp)
  then have "rows ! t = replicate 768 0" using r(2) by simp
  with r(1) show ?thesis by blast
qed

text \<open>
  C2. A time frame that is zero on both input channels (zero padding of a short clip)
  becomes a zero row of 768 features: the convolutions have no bias and ReLU keeps 0.
\<close>

theorem AudioExtractor_zero_frame:
  assumes "is_t3 8 2 4 w1" "is_t3 8 8 7 w2" "is_t3 24 8 4 w3" "is_t3 24 24 7 w4"
    and "is_t3 2 512 128 x" "t < 512" "all_zero (frame x t)"
  shows "\<exists>rows. AudioExtractor_forward (AudioExtractor_init w1 w2 w3 w4) x = Some rows
    \<and> rows ! t = replicate 768 0"
  using extractor_zero_row[OF assms] .

lemma extractor_odd_None:
  assumes "is_t3 8 2 4 w1" "is_t3 8 8 7 w2" "is_t3 24 8 4 w3" "is_t3 24 24 7 w4"
    and "is_t3 2 T 128 x" "odd T"
  shows "AudioExtractor_forward (AudioExtractor_init w1 w2 w3 w4) x = None"
proof -
  have T: "0 < T" using assms(6) by (cases T) auto
  have "(T * 768) mod 512 \<noteq> (0::nat)" using assms(6) by (rule odd_frames_mod)
  then show ?thesis
    using AudioExtractor_forward_eq[OF assms(1-5) T refl] length_extracted[OF assms(1-5)]
    by (simp add: reshape_rows_None)
qed

text \<open>
  C3. \<^verbatim>\<open>x.reshape([batch_size, 512, -1])\<close> hard-codes 512 frames: an input with an
  odd number of frames makes the reshape fail (torch raises), whatever the weights.
\<close>

theorem AudioExtractor_odd_frames_error:
  assumes "is_t3 8 2 4 w1" "is_t3 8 8 7 w2" "is_t3 24 8 4 w3" "is_t3 24 24 7 w4"
    and "is_t3 2 T 128 x" "odd T"
  shows "AudioExtractor_forward (AudioExtractor_init w1 w2 w3 w4) x = None"
  using extractor_odd_None[OF assms] .

lemma extractor_even_rows:
  assumes "is_t3 8 2 4 w1" "is_t3 8 8 7 w2" "is_t3 24 8 4 w3" "is_t3 24 24 7 w4"
    and "is_t3 2 T 128 x" "even T" "0 < T"
  shows "\<exists>rows. AudioExtractor_forward (AudioExtractor_init w1 w2 w3 w4) x = Some rows
    \<and> length rows = 512 \<and> (\<forall>r \<in> set rows. length r = 3 * T div 2)"
proof -
  let ?flat = "concat (map (\<lambda>t. concat (extract_frame (AudioExtractor_init w1 w2 w3 w4)
      (frame x t))) [0..<T])"
  have len: "length ?flat = 512 * (3 * T div 2)"
    using length_extracted[OF assms(1-5)] even_frames_len[OF assms(6)] by simp
  moreover have "0 < 3 * T div 2" using assms(7) by simp
  ultimately have "reshape_rows 512 ?flat = Some (chunks (3 * T div 2) ?flat)"
    by (simp add: reshape_rows_Some)
  then show ?thesis
    using AudioExtractor_forward_eq[OF assms(1-5,7) refl] chunks_shape[OF _ len] assms(7) by auto
qed

text \<open>
  C4. For any other even number \<open>T\<close> of frames the reshape succeeds silently but
  gives 512 rows of \<open>3T/2\<close> features: rows are no longer time frames and their width
  is not the 768 the attention encoder is built for.
\<close>

theorem AudioExtractor_even_frames_width:
  assumes "is_t3 8 2 4 w1" "is_t3 8 8 7 w2" "is_t3 24 8 4 w3" "is_t3 24 24 7 w4"
    and "is_t3 2 T 128 x" "even T" "0 < T"
  shows "\<exists>rows. AudioExtractor_forward (AudioExtractor_init w1 w2 w3 w4) x = Some rows
    \<and> length rows = 512 \<and> (\<forall>r \<in> set rows. length r = 3 * T div 2)"
  using extractor_even_rows[OF assms] .

subsection \<open>Witnesses\<close>

lemma zeros3_shape: "is_t3 a b c (zeros3 a b c)"
  by (simp add: is_t3_iff is_mat_iff)

lemma frame_zeros3: "t < b \<Longrightarrow> frame (zeros3 a b c) t = replicate a (replicate c 0)"
  by (simp add: frame_def)

theorem AudioExtractor_512_frames_witness:
  "is_t3 8 2 4 (zeros3 8 2 4) \<and> is_t3 8 8 7 (zeros3 8 8 7) \<and> is_t3 24 8 4 (zeros3 24 8 4)
   \<and> is_t3 24 24 7 (zeros3 24 24 7) \<and> is_t3 2 512 128 (zeros3 2 512 128)
   \<and> AudioExtractor_forward
       (AudioExtractor_init (zeros3 8 2 4) (zeros3 8 8 7) (zeros3 24 8 4) (zeros3 24 24 7))
       (zeros3 2 512 128) =
     Some (map (\<lambda>t. concat (extract_frame
       (AudioExtractor_init (zeros3 8 2 4) (zeros3 8 8 7) (zeros3 24 8 4) (zeros3 24 24 7))
       (frame (zeros3 2 512 128) t))) [0..<512])"
  by (intro conjI zeros3_shape AudioExtractor_512_frames[OF zeros3_shape zeros3_shape
      zeros3_shape zeros3_shape zeros3_shape])

theorem AudioExtractor_zero_frame_witness:
  "is_t3 8 2 4 (zeros3 8 2 4) \<and> is_t3 8 8 7 (zeros3 8 8 7) \<and> is_t3 24 8 4 (zeros3 24 8 4)
   \<and> is_t3 24 24 7 (zeros3 24 24 7) \<and> is_t3 2 512 128 (zeros3 2 512 128)
   \<and> (0::nat) < 512 \<and> all_zero (frame (zeros3 2 512 128) 0)
   \<and> (\<exists>rows. AudioExtractor_forward
       (AudioExtractor_init (zeros3 8 2 4) (zeros3 8 8 7) (zeros3 24 8 4) (zeros3 24 24 7))
       (zeros3 2 512 128) = Some rows \<and> rows ! 0 = replicate 768 0)"
proof -
  have z: "all_zero (frame (zeros3 2 512 128) 0)"
    by (simp add: frame_zeros3 all_zero_iff)
  have t: "(0::nat) < 512" by simp
  show ?thesis
    by (intro conjI zeros3_shape t z AudioExtractor_zero_frame[OF zeros3_shape zeros3_shape
        zeros3_shape zeros3_shape zeros3_shape t z])
qed

theorem AudioExtractor_odd_frames_error_witness:
  "is_t3 8 2 4 (zeros3 8 2 4) \<and> is_t3 8 8 7 (zeros3 8 8 7) \<and> is_t3 24 8 4 (zeros3 24 8 4)
   \<and> is_t3 24 24 7 (zeros3 24 24 7) \<and> is_t3 2 1 128 (zeros3 2 1 128) \<and> odd (1::nat)
   \<and> AudioExtractor_forward
       (AudioExtractor_init (zeros3 8 2 4) (zeros3 8 8 7) (zeros3 24 8 4) (zeros3 24 24 7))
       (zeros3 2 1 128) = None"
proof -
  have o: "odd (1::nat)" by simp
  show ?thesis
    by (intro conjI zeros3_shape o AudioExtractor_odd_frames_error[OF zeros3_shape zeros3_shape
        zeros3_shape zeros3_shape zeros3_shape o])
qed

theorem AudioExtractor_even_frames_width_witness:
  "is_t3 8 2 4 (zeros3 8 2 4) \<and> is_t3 8 8 7 (zeros3 8 8 7) \<and> is_t3 24 8 4 (zeros3 24 8 4)
   \<and> is_t3 24 24 7 (zeros3 24 24 7) \<and> is_t3 2 2 128 (zeros3 2 2 128) \<and> even (2::nat)
   \<and> (0::nat) < 2
   \<and> (\<exists>rows. AudioExtractor_forward
       (AudioExtractor_init (zeros3 8 2 4) (zeros3 8 8 7) (zeros3 24 8 4) (zeros3 24 24 7))
       (zeros3 2 2 128) = Some rows \<and> length rows = 512 \<and> (\<forall>r \<in> set rows. length r = 3))"
proof -
  have ev: "even (2::nat)" and pos: "(0::nat) < 2" and w: "3 * 2 div 2 = (3::nat)"
    by simp_all
  show ?thesis
    using AudioExtractor_even_frames_width[OF zeros3_shape zeros3_shape zeros3_shape zeros3_shape
        zeros3_shape ev pos]
    by (intro conjI zeros3_shape ev pos) (simp only: w)
qed

end
