(* ===== verification/Attention.thy ===== *)
theory Attention
  imports Prelude
begin

text \<open>
  \<^verbatim>\<open>padding_mask_audio\<close>, \<^verbatim>\<open>Self_Attention\<close> and \<^verbatim>\<open>MHA\<close>
  (\<^verbatim>\<open>audio_model.py\<close>, lines 51-57 and 86-146), for one sample and, inside
  \<^verbatim>\<open>Self_Attention\<close>, one head. The key mask of shape \<open>[1, T]\<close> is its single
  row, broadcast over heads and query rows as torch does after \<^verbatim>\<open>unsqueeze(1)\<close>.
  The dropout module that \<^verbatim>\<open>Self_Attention\<close> creates on every call is a fresh
  \<^verbatim>\<open>nn.Dropout\<close>, which is in training mode; its Bernoulli draw is the argument
  \<open>keep\<close>. Shape errors of \<^verbatim>\<open>matmul\<close>, of the mask broadcast and of
  \<^verbatim>\<open>view\<close> are \<open>None\<close>; so is the \<^verbatim>\<open>ZeroDivisionError\<close> of
  \<^verbatim>\<open>hidden_dim // num_head\<close> for zero heads.
  \<open>MHA_spec\<close> is the textbook multi-head attention over column blocks of the
  projections, the reference \<^verbatim>\<open>MHA.forward\<close> is proved to refine.
\<close>

section \<open>Padding mask\<close>

text \<open>\<^verbatim>\<open>torch.all(audio != 0, axis=2).unsqueeze(-2)\<close>: key \<open>t\<close> is kept iff no
  feature of row \<open>t\<close> is zero.\<close>

definition padding_mask_audio :: "mat \<Rightarrow> bool list" where
  "padding_mask_audio audio = map (list_all (\<lambda>v. v \<noteq> 0)) audio"

section \<open>Scaled dot-product attention\<close>

text \<open>\<^verbatim>\<open>torch.masked_fill(score, ~mask, -1e9)\<close> on one score row.\<close>

definition masked_fill_keys :: "bool list \<Rightarrow> vec \<Rightarrow> vec" where
  "masked_fill_keys key_mask row = map2 (\<lambda>k s. if k then s else - 1000000000) key_mask row"

definition Self_Attention ::
  "mat \<Rightarrow> mat \<Rightarrow> mat \<Rightarrow> bool list option \<Rightarrow> (nat \<Rightarrow> nat \<Rightarrow> bool) \<Rightarrow> (mat \<times> mat) option" where
  "Self_Attention Q K V key_mask keep =
     (if width Q \<noteq> width K \<or> length K \<noteq> length V
         \<or> (case key_mask of None \<Rightarrow> False | Some m \<Rightarrow> length m \<noteq> length K)
      then None
      else
        (let K_t = transpose K;
             KV = matmul Q K_t;
             dim = width Q;
             score = map (map (\<lambda>s. s / sqrt (real dim))) KV;
             score = (case key_mask of None \<Rightarrow> score | Some m \<Rightarrow> map (masked_fill_keys m) score);
             score = dropout_mat (1 / 10) True keep (map softmax score);
             att_value = matmul score V
         in Some (att_value, score)))"

text \<open>Scores of one query row before softmax, as the code computes them (analysis view).\<close>

definition apply_key_mask :: "bool list option \<Rightarrow> vec \<Rightarrow> vec" where
  "apply_key_mask key_mask row =
     (case key_mask of None \<Rightarrow> row | Some m \<Rightarrow> masked_fill_keys m row)"

definition score_row :: "nat \<Rightarrow> mat \<Rightarrow> bool list option \<Rightarrow> vec \<Rightarrow> vec" where
  "score_row d K key_mask q = apply_key_mask key_mask (map (\<lambda>k. dot q k / sqrt (real d)) K)"

section \<open>Multi-head attention\<close>

record mha =
  hidden_dim :: nat
  num_head :: nat
  head_dim :: nat
  Q_fc :: linear
  K_fc :: linear
  V_fc :: linear
  Out_fc :: linear

definition MHA_init :: "nat \<Rightarrow> nat \<Rightarrow> mat \<Rightarrow> mat \<Rightarrow> mat \<Rightarrow> mat \<Rightarrow> mha option" where
  "MHA_init hidden heads Wq Wk Wv Wo =
     (if heads = 0 then None
      else Some \<lparr>hidden_dim = hidden, num_head = heads, head_dim = hidden div heads,
        Q_fc = \<lparr>lin_weight = Wq, lin_bias = None\<rparr>, K_fc = \<lparr>lin_weight = Wk, lin_bias = None\<rparr>,
        V_fc = \<lparr>lin_weight = Wv, lin_bias = None\<rparr>, Out_fc = \<lparr>lin_weight = Wo, lin_bias = None\<rparr>\<rparr>)"

text \<open>\<^verbatim>\<open>X.view(batch_size, -1, H, d).transpose(1, 2)\<close>: head \<open>h\<close> holds slice
  \<open>h\<close> of every row of the buffer cut into rows of \<open>H * d\<close>.\<close>

definition split_heads :: "nat \<Rightarrow> nat \<Rightarrow> mat \<Rightarrow> mat list option" where
  "split_heads H d X =
     map_option (\<lambda>rows. map (\<lambda>h. map (\<lambda>r. take d (drop (h * d) r)) rows) [0..<H])
       (view_cols (H * d) (concat X))"

text \<open>\<^verbatim>\<open>att.transpose(1, 2).contiguous().view(batch_size, -1, hidden_dim)\<close>.\<close>

definition merge_heads :: "nat \<Rightarrow> mat list \<Rightarrow> mat option" where
  "merge_heads D heads = view_cols D (concat (map concat (transpose heads)))"

definition MHA_forward ::
  "mha \<Rightarrow> mat \<Rightarrow> mat \<Rightarrow> mat \<Rightarrow> bool list option \<Rightarrow> (nat \<Rightarrow> nat \<Rightarrow> nat \<Rightarrow> bool) \<Rightarrow> mat option" where
  "MHA_forward m Q_input K_input V_input key_mask keeps = do {
     Qp \<leftarrow> linear_rows (Q_fc m) Q_input;
     Q \<leftarrow> split_heads (num_head m) (head_dim m) Qp;
     Kp \<leftarrow> linear_rows (K_fc m) K_input;
     K \<leftarrow> split_heads (num_head m) (head_dim m) Kp;
     Vp \<leftarrow> linear_rows (V_fc m) V_input;
     V \<leftarrow> split_heads (num_head m) (head_dim m) Vp;
     att \<leftarrow> those (map (\<lambda>h. map_option fst (Self_Attention (Q ! h) (K ! h) (V ! h) key_mask (keeps h)))
              [0..<num_head m]);
     att_value \<leftarrow> merge_heads (hidden_dim m) att;
     linear_rows (Out_fc m) att_value
   }"

section \<open>Reference multi-head attention\<close>

text \<open>The textbook definition \<open>MultiHead(Q, K, V) = Concat(head_1, ..., head_H) W_O\<close>
  with \<open>head_h = Attention(Q W_Q^h, K W_K^h, V W_V^h)\<close>, where \<open>W^h\<close> are the column
  blocks \<open>h d ..< (h + 1) d\<close> of the projections. It reads no \<^verbatim>\<open>view\<close> or
  \<^verbatim>\<open>transpose\<close>; it is the contract \<^verbatim>\<open>MHA.forward\<close> implements.\<close>

definition cols :: "nat \<Rightarrow> nat \<Rightarrow> mat \<Rightarrow> mat" where
  "cols lo d X = map (\<lambda>r. take d (drop lo r)) X"

definition head_attention ::
  "nat \<Rightarrow> mat \<Rightarrow> mat \<Rightarrow> mat \<Rightarrow> bool list option \<Rightarrow> (nat \<Rightarrow> nat \<Rightarrow> bool) \<Rightarrow> mat" where
  "head_attention d Q K V key_mask keep =
     matmul (dropout_mat (1 / 10) True keep (map (softmax \<circ> score_row d K key_mask) Q)) V"

definition MHA_spec ::
  "mha \<Rightarrow> mat \<Rightarrow> mat \<Rightarrow> mat \<Rightarrow> bool list option \<Rightarrow> (nat \<Rightarrow> nat \<Rightarrow> nat \<Rightarrow> bool) \<Rightarrow> mat" where
  "MHA_spec m Q K V key_mask keeps =
     (let H = num_head m; d = head_dim m;
          Qp = map (linear_fwd (Q_fc m)) Q; Kp = map (linear_fwd (K_fc m)) K;
          Vp = map (linear_fwd (V_fc m)) V;
          heads = map (\<lambda>h. head_attention d (cols (h * d) d Qp) (cols (h * d) d Kp) (cols (h * d) d Vp)
                    key_mask (keeps h)) [0..<H]
      in map (linear_fwd (Out_fc m)) (map (\<lambda>t. concat (map (\<lambda>h. heads ! h ! t) [0..<H])) [0..<length Q]))"

section \<open>Lemmas on attention\<close>

definition mask_fits :: "nat \<Rightarrow> bool list option \<Rightarrow> bool" where
  "mask_fits n key_mask \<longleftrightarrow> (case key_mask of None \<Rightarrow> True | Some m \<Rightarrow> length m = n)"

lemma Self_Attention_Some:
  assumes "is_mat Tq d Q" "is_mat Tk d K" "length V = Tk" "0 < Tq" "0 < Tk" "0 < d"
    and "mask_fits Tk key_mask"
  shows "Self_Attention Q K V key_mask keep =
    Some (matmul (dropout_mat (1 / 10) True keep (map (softmax \<circ> score_row d K key_mask) Q)) V,
          dropout_mat (1 / 10) True keep (map (softmax \<circ> score_row d K key_mask) Q))"
proof -
  have w: "width Q = d" "width K = d"
    using assms by (simp_all add: width_is_mat)
  have "length K = Tk" using assms(2) by (simp add: is_mat_iff)
  then have ok: "\<not> (width Q \<noteq> width K \<or> length K \<noteq> length V
      \<or> (case key_mask of None \<Rightarrow> False | Some m \<Rightarrow> length m \<noteq> length K))"
    using w assms(3,7) by (auto simp: mask_fits_def split: option.splits)
  have "map (map (\<lambda>s. s / sqrt (real d))) (matmul Q (transpose K))
      = map (\<lambda>q. map (\<lambda>k. dot q k / sqrt (real d)) K) Q"
    using matmul_transpose[OF assms(2,6)] by simp
  then show ?thesis
    using ok w unfolding Self_Attention_def Let_def
    by (cases key_mask) (simp_all add: score_row_def apply_key_mask_def comp_def)
qed

lemma length_score_row [simp]: "mask_fits (length K) key_mask \<Longrightarrow> length (score_row d K key_mask q) = length K"
  by (cases key_mask) (simp_all add: score_row_def apply_key_mask_def masked_fill_keys_def mask_fits_def)

subsection \<open>Properties of the padding mask and of attention\<close>

lemma score_row_masked_eq:
  assumes "length m = length K" "length K' = length K"
    and "\<forall>j < length K. m ! j \<longrightarrow> K ! j = K' ! j"
  shows "score_row d K (Some m) = score_row d K' (Some m)"
proof
  fix q
  show "score_row d K (Some m) q = score_row d K' (Some m) q"
  proof (rule nth_equalityI)
    show "length (score_row d K (Some m) q) = length (score_row d K' (Some m) q)"
      using assms(1,2) by (simp add: score_row_def apply_key_mask_def masked_fill_keys_def)
    fix j assume "j < length (score_row d K (Some m) q)"
    then have j: "j < length K" using assms(1)
      by (simp add: score_row_def apply_key_mask_def masked_fill_keys_def)
    show "score_row d K (Some m) q ! j = score_row d K' (Some m) q ! j"
      using j assms by (simp add: score_row_def apply_key_mask_def masked_fill_keys_def)
  qed
qed

text \<open>
  C5. The padding mask does not mean ``this frame is not padding'': the code tests
  \<^verbatim>\<open>torch.all(audio != 0)\<close>, so every frame with a single zero feature is masked,
  also one that carries signal in its other features. For any such frame \<open>t\<close>, whatever
  the key row \<open>t\<close> holds, \<^verbatim>\<open>Self_Attention\<close> with the mask of \<open>audio\<close> returns the
  same weights and values: its content is ignored as a key.
\<close>

theorem padding_mask_hides_signal:
  assumes "is_mat Tq d Q" "is_mat Tk d K" "is_mat Tk d K'" "length V = Tk"
    and "0 < Tq" "0 < Tk" "0 < d" "length audio = Tk" "t < Tk" "0 \<in> set (audio ! t)"
    and "\<forall>j < Tk. j \<noteq> t \<longrightarrow> K ! j = K' ! j"
  shows "Self_Attention Q K V (Some (padding_mask_audio audio)) keep
    = Self_Attention Q K' V (Some (padding_mask_audio audio)) keep"
proof -
  let ?m = "padding_mask_audio audio"
  have lens: "length K = Tk" "length K' = Tk" "length ?m = Tk"
    using assms(2,3,8) by (simp_all add: is_mat_iff padding_mask_audio_def)
  have "\<not> ?m ! t" using assms(8-10) by (auto simp: padding_mask_audio_def list_all_iff)
  then have "\<forall>j < length K. ?m ! j \<longrightarrow> K ! j = K' ! j" using assms(11) lens by metis
  then have "score_row d K (Some ?m) = score_row d K' (Some ?m)"
    using lens by (intro score_row_masked_eq) simp_all
  moreover have fits: "mask_fits Tk (Some ?m)" using lens by (simp add: mask_fits_def)
  ultimately show ?thesis
    using Self_Attention_Some[OF assms(1,2,4-7) fits] Self_Attention_Some[OF assms(1,3,4-7) fits]
    by simp
qed

text \<open>
  C6. Masking works on the keys' contents: when two key matrices differ only in rows the
  mask hides, \<^verbatim>\<open>Self_Attention\<close> returns the same weights and values. (The
  masked keys still get weight \<open>exp(-10\<^sup>9 - \<dots>)\<close>, so the values \<open>V\<close> of
  masked rows are not ignored, only their keys.)
\<close>

theorem Self_Attention_masked_keys:
  assumes "is_mat Tq d Q" "is_mat Tk d K" "is_mat Tk d K'" "length V = Tk"
    and "0 < Tq" "0 < Tk" "0 < d" "length m = Tk"
    and "\<forall>j < Tk. m ! j \<longrightarrow> K ! j = K' ! j"
  shows "Self_Attention Q K V (Some m) keep = Self_Attention Q K' V (Some m) keep"
proof -
  have fits: "mask_fits Tk (Some m)" using assms(8) by (simp add: mask_fits_def)
  have lens: "length K = Tk" "length K' = Tk" using assms(2,3) by (simp_all add: is_mat_iff)
  then have "score_row d K (Some m) = score_row d K' (Some m)"
    using assms(8,9) by (intro score_row_masked_eq) simp_all
  then show ?thesis
    using Self_Attention_Some[OF assms(1,2,4-7) fits] Self_Attention_Some[OF assms(1,3,4-7) fits]
    by simp
qed

text \<open>
  C7. The dropout of \<^verbatim>\<open>Self_Attention\<close> is a module built inside the function, so
  \<^verbatim>\<open>model.eval()\<close> never reaches it: even when the draw keeps every weight, each
  row of attention weights sums to \<open>10/9\<close> instead of 1, and other draws zero weights.
\<close>

theorem Self_Attention_rows_keep_all:
  assumes "is_mat Tq d Q" "is_mat Tk d K" "length V = Tk" "0 < Tq" "0 < Tk" "0 < d"
    and "mask_fits Tk key_mask"
  shows "\<exists>att P. Self_Attention Q K V key_mask (\<lambda>_ _. True) = Some (att, P)
    \<and> length P = Tq \<and> (\<forall>row \<in> set P. sum_list row = 10 / 9)"
proof -
  have lens: "length K = Tk" "length Q = Tq" using assms(1,2) by (simp_all add: is_mat_iff)
  let ?S = "map (softmax \<circ> score_row d K key_mask) Q"
  have "dropout_mat (1 / 10) True (\<lambda>_ _. True) ?S
      = map (\<lambda>q. map (\<lambda>v. v / (1 - 1 / 10)) (softmax (score_row d K key_mask q))) Q"
    by (simp add: dropout_mat_keep_all)
  moreover have "sum_list (map (\<lambda>v. v / (1 - 1 / 10)) (softmax (score_row d K key_mask q))) = 10 / 9"
    for q
  proof -
    have "score_row d K key_mask q \<noteq> []" using lens assms(5,7) by (auto simp del: length_score_row
        dest: arg_cong[where f = length] simp: length_score_row[of K key_mask d q])
    then have "sum_list (softmax (score_row d K key_mask q)) = 1" by (rule softmax_sum)
    then show ?thesis by (simp only: sum_list_map_divide map_ident) simp
  qed
  ultimately show ?thesis
    using Self_Attention_Some[OF assms] lens by auto
qed

subsection \<open>Splitting and merging heads\<close>

lemma split_heads_rect:
  assumes "is_mat T (H * d) X" "0 < T" "0 < H" "0 < d"
  shows "split_heads H d X = Some (map (\<lambda>h. map (\<lambda>r. take d (drop (h * d) r)) X) [0..<H])"
  using view_cols_concat[OF assms(1,2)] assms(3,4) by (simp add: split_heads_def)

lemma concat_heads_rect:
  assumes "\<forall>h < H. is_mat T d (hs ! h)"
  shows "is_mat T (H * d) (map (\<lambda>t. concat (map (\<lambda>h. hs ! h ! t) [0..<H])) [0..<T])"
proof -
  have "length (concat (map (\<lambda>h. hs ! h ! t) [0..<H])) = H * d" if "t < T" for t
    using assms that by (subst length_concat_map_const[where n = d]) (auto simp: is_mat_iff)
  then show ?thesis by (simp add: is_mat_iff)
qed

lemma merge_heads_rect:
  assumes "length hs = H" "0 < H" "\<forall>h < H. is_mat T d (hs ! h)" "0 < T" "0 < d"
  shows "merge_heads (H * d) hs = Some (map (\<lambda>t. concat (map (\<lambda>h. hs ! h ! t) [0..<H])) [0..<T])"
proof -
  have hs: "hs = map (\<lambda>h. hs ! h) [0..<H]"
    using assms(1) map_nth[of hs] by simp
  have "transpose hs = map (\<lambda>t. map (\<lambda>h. hs ! h ! t) [0..<H]) [0..<T]"
    using assms(2,3) by (subst hs) (simp add: transpose_map_rect is_mat_iff)
  then have flat: "concat (map concat (transpose hs))
      = concat (map (\<lambda>t. concat (map (\<lambda>h. hs ! h ! t) [0..<H])) [0..<T])"
    by (simp add: comp_def)
  note rect = concat_heads_rect[OF assms(3)]
  have "view_cols (H * d) (concat (map (\<lambda>t. concat (map (\<lambda>h. hs ! h ! t) [0..<H])) [0..<T]))
      = Some (map (\<lambda>t. concat (map (\<lambda>h. hs ! h ! t) [0..<H])) [0..<T])"
    using view_cols_concat[OF rect assms(4)] assms(2,5) by simp
  then show ?thesis using flat by (simp add: merge_heads_def)
qed

lemma slice_length:
  "length r = H * d \<Longrightarrow> h < H \<Longrightarrow> length (take d (drop (h * d) r)) = d"
proof -
  assume "length r = H * d" "h < H"
  moreover have "h * d + d \<le> H * d"
    using \<open>h < H\<close> by (metis Suc_leI add.commute mult_Suc mult_le_mono1)
  ultimately show ?thesis by simp
qed

text \<open>
  C8. When \<^verbatim>\<open>hidden_dim\<close> is \<^verbatim>\<open>num_head * head_dim\<close>, cutting a matrix into heads
  with \<^verbatim>\<open>view(batch_size, -1, H, d).transpose(1, 2)\<close> and putting the heads back with
  \<^verbatim>\<open>transpose(1, 2).contiguous().view(batch_size, -1, hidden_dim)\<close> gives the matrix
  back: the two reshapes of \<^verbatim>\<open>MHA.forward\<close> are inverse.
\<close>

theorem split_merge_heads:
  assumes "is_mat T (H * d) X" "0 < T" "0 < H" "0 < d"
  shows "\<exists>hs. split_heads H d X = Some hs \<and> merge_heads (H * d) hs = Some X"
proof -
  let ?hs = "map (\<lambda>h. map (\<lambda>r. take d (drop (h * d) r)) X) [0..<H]"
  have rows: "length r = H * d" if "r \<in> set X" for r
    using assms(1) that by (simp add: is_mat_iff)
  have "\<forall>h < H. is_mat T d (?hs ! h)"
  proof (intro allI impI)
    fix h assume "h < H"
    then have "length (take d (drop (h * d) r)) = d" if "r \<in> set X" for r
      using slice_length[OF rows[OF that]] by blast
    then show "is_mat T d (?hs ! h)"
      using assms(1) \<open>h < H\<close> by (simp add: is_mat_iff del: length_take length_drop)
  qed
  then have "merge_heads (H * d) ?hs
      = Some (map (\<lambda>t. concat (map (\<lambda>h. ?hs ! h ! t) [0..<H])) [0..<T])"
    using merge_heads_rect[of ?hs H T d] assms(2-4) by simp
  also have "map (\<lambda>t. concat (map (\<lambda>h. ?hs ! h ! t) [0..<H])) [0..<T] = X"
  proof (rule nth_equalityI)
    show "length (map (\<lambda>t. concat (map (\<lambda>h. ?hs ! h ! t) [0..<H])) [0..<T]) = length X"
      using assms(1) by (simp add: is_mat_iff)
    fix t assume "t < length (map (\<lambda>t. concat (map (\<lambda>h. ?hs ! h ! t) [0..<H])) [0..<T])"
    then have t: "t < T" "t < length X" using assms(1) by (simp_all add: is_mat_iff)
    then have "concat (map (\<lambda>h. ?hs ! h ! t) [0..<H])
        = concat (map (\<lambda>h. take d (drop (h * d) (X ! t))) [0..<H])"
      by (intro arg_cong[where f = concat] map_cong) auto
    also have "\<dots> = X ! t"
      using rows[OF nth_mem[OF t(2)]] by (simp add: concat_slices)
    finally show "map (\<lambda>t. concat (map (\<lambda>h. ?hs ! h ! t) [0..<H])) [0..<T] ! t = X ! t"
      using t by simp
  qed
  finally show ?thesis
    using split_heads_rect[OF assms] by simp
qed

subsection \<open>Shape of multi-head attention\<close>

text \<open>A well-formed \<^verbatim>\<open>MHA\<close> module of hidden size \<open>D\<close>: \<open>D\<close> is
  \<^verbatim>\<open>num_head * head_dim\<close> and the four projections are \<open>D \<times> D\<close>.\<close>

definition mha_wf :: "nat \<Rightarrow> mha \<Rightarrow> bool" where
  "mha_wf D m \<longleftrightarrow> 0 < num_head m \<and> 0 < head_dim m \<and> hidden_dim m = D
     \<and> D = num_head m * head_dim m
     \<and> linear_wf D D (Q_fc m) \<and> linear_wf D D (K_fc m) \<and> linear_wf D D (V_fc m)
     \<and> linear_wf D D (Out_fc m)"

lemma split_heads_shape:
  assumes "is_mat T (H * d) X" "0 < T" "0 < H" "0 < d"
  shows "\<exists>hs. split_heads H d X = Some hs \<and> length hs = H \<and> (\<forall>h < H. is_mat T d (hs ! h))"
proof -
  have "length (take d (drop (h * d) r)) = d" if "r \<in> set X" "h < H" for r h
    using assms(1) that slice_length[of r H d h] by (simp add: is_mat_iff)
  then show ?thesis
    using split_heads_rect[OF assms] assms(1) by (simp add: is_mat_iff del: length_take length_drop)
qed

lemma Self_Attention_shape:
  assumes "is_mat T d Q" "is_mat T d K" "is_mat T d V" "0 < T" "0 < d" "mask_fits T key_mask"
  shows "\<exists>att P. Self_Attention Q K V key_mask keep = Some (att, P) \<and> is_mat T d att"
proof -
  have "length V = T" using assms(3) by (simp add: is_mat_iff)
  moreover have "is_mat T d (matmul (dropout_mat (1 / 10) True keep
      (map (softmax \<circ> score_row d K key_mask) Q)) V)"
    using matmul_shape[OF _ assms(3,4)] assms(1) by (simp add: is_mat_iff)
  ultimately show ?thesis
    using Self_Attention_Some[OF assms(1,2) _ assms(4,4,5,6)] by simp
qed

lemma MHA_forward_shape:
  assumes "mha_wf D m" "is_mat T D X" "0 < T" "mask_fits T key_mask"
  shows "\<exists>Y. MHA_forward m X X X key_mask keeps = Some Y \<and> is_mat T D Y"
proof -
  let ?H = "num_head m" and ?d = "head_dim m"
  have m0: "0 < ?H" "0 < ?d" "hidden_dim m = D" "D = ?H * ?d"
    using assms(1) unfolding mha_wf_def by blast+
  then have m: "0 < ?H" "0 < ?d" "hidden_dim m = D" "D = ?H * ?d" "0 < D" by simp_all
  have lin: "linear_wf D D (Q_fc m)" "linear_wf D D (K_fc m)" "linear_wf D D (V_fc m)"
    "linear_wf D D (Out_fc m)" using assms(1) unfolding mha_wf_def by blast+
  note P = linear_rows_shape[OF lin(1) m(5) assms(2)] and K = linear_rows_shape[OF lin(2) m(5) assms(2)]
    and V = linear_rows_shape[OF lin(3) m(5) assms(2)]
  obtain Qs where Qs: "split_heads ?H ?d (map (linear_fwd (Q_fc m)) X) = Some Qs"
      "\<forall>h < ?H. is_mat T ?d (Qs ! h)"
    using split_heads_shape[of T ?H ?d] P m assms(3) by auto
  obtain Ks where Ks: "split_heads ?H ?d (map (linear_fwd (K_fc m)) X) = Some Ks"
      "\<forall>h < ?H. is_mat T ?d (Ks ! h)"
    using split_heads_shape[of T ?H ?d] K m assms(3) by auto
  obtain Vs where Vs: "split_heads ?H ?d (map (linear_fwd (V_fc m)) X) = Some Vs"
      "\<forall>h < ?H. is_mat T ?d (Vs ! h)"
    using split_heads_shape[of T ?H ?d] V m assms(3) by auto
  have "\<forall>h < ?H. \<exists>a P. Self_Attention (Qs ! h) (Ks ! h) (Vs ! h) key_mask (keeps h) = Some (a, P)
      \<and> is_mat T ?d a"
    using Self_Attention_shape Qs(2) Ks(2) Vs(2) assms(3,4) m(2) by blast
  then obtain att where att: "\<forall>h < ?H. (\<exists>P. Self_Attention (Qs ! h) (Ks ! h) (Vs ! h) key_mask
      (keeps h) = Some (att h, P)) \<and> is_mat T ?d (att h)"
    by metis
  have th: "those (map (\<lambda>h. map_option fst (Self_Attention (Qs ! h) (Ks ! h) (Vs ! h) key_mask (keeps h)))
      [0..<?H]) = Some (map att [0..<?H])"
    using att by (intro those_map_Some) auto
  have hs: "\<forall>h < ?H. is_mat T ?d (map att [0..<?H] ! h)" using att by simp
  obtain Z where Z: "merge_heads (?H * ?d) (map att [0..<?H]) = Some Z" "is_mat T D Z"
    using merge_heads_rect[OF _ m(1) hs assms(3) m(2)] concat_heads_rect[OF hs] m(4) by simp
  show ?thesis
    unfolding MHA_forward_def using P K V Qs(1) Ks(1) Vs(1) th Z m(3,4)
      linear_rows_shape[OF lin(4) m(5) Z(2)] by auto
qed

lemma MHA_forward_width_None:
  assumes "mha_wf D m" "r \<in> set X" "length r \<noteq> D"
  shows "MHA_forward m X K V key_mask keeps = None"
proof -
  have "is_mat D D (lin_weight (Q_fc m))" "0 < D"
    using assms(1) by (auto simp: mha_wf_def linear_wf_def)
  then have "width (lin_weight (Q_fc m)) = D" by (simp add: width_is_mat)
  then have "linear_rows (Q_fc m) X = None"
    using assms(2,3) by (auto simp: linear_rows_def list_all_iff)
  then show ?thesis by (simp add: MHA_forward_def)
qed

subsection \<open>Refinement of the reference multi-head attention\<close>

lemma cols_shape:
  assumes "is_mat T (H * d) X" "h < H"
  shows "is_mat T d (cols (h * d) d X)"
  using assms slice_length[of _ H d h] by (auto simp: cols_def is_mat_iff simp del: length_take length_drop)

text \<open>
  C18. \<^verbatim>\<open>MHA.forward\<close> implements the textbook multi-head attention
  \<open>MHA_spec\<close>: for a well-formed module of hidden size \<open>D\<close>, queries of \<open>Tq > 0\<close>
  rows and keys and values of \<open>Tk > 0\<close> rows of \<open>D\<close> features and a mask of \<open>Tk\<close>
  keys, the \<^verbatim>\<open>view\<close>/\<^verbatim>\<open>transpose\<close> implementation returns the concatenation of
  the attentions of the column blocks of the projections, projected by \<^verbatim>\<open>Out_fc\<close>.
\<close>

theorem MHA_forward_refines_spec:
  assumes "mha_wf D m" "is_mat Tq D Q" "is_mat Tk D K" "is_mat Tk D V" "0 < Tq" "0 < Tk"
    and "mask_fits Tk key_mask"
  shows "MHA_forward m Q K V key_mask keeps = Some (MHA_spec m Q K V key_mask keeps)"
proof -
  let ?H = "num_head m" and ?d = "head_dim m"
  have m0: "0 < ?H" "0 < ?d" "hidden_dim m = D" "D = ?H * ?d"
    using assms(1) unfolding mha_wf_def by blast+
  then have D: "0 < D" by simp
  have lin: "linear_wf D D (Q_fc m)" "linear_wf D D (K_fc m)" "linear_wf D D (V_fc m)"
    "linear_wf D D (Out_fc m)" using assms(1) unfolding mha_wf_def by blast+
  let ?Qp = "map (linear_fwd (Q_fc m)) Q" and ?Kp = "map (linear_fwd (K_fc m)) K"
    and ?Vp = "map (linear_fwd (V_fc m)) V"
  note P = linear_rows_shape[OF lin(1) D assms(2)] and K = linear_rows_shape[OF lin(2) D assms(3)]
    and V = linear_rows_shape[OF lin(3) D assms(4)]
  have sQ: "split_heads ?H ?d ?Qp = Some (map (\<lambda>h. cols (h * ?d) ?d ?Qp) [0..<?H])"
    using split_heads_rect[of Tq ?H ?d ?Qp] P m0 assms(5) by (simp add: cols_def)
  have sK: "split_heads ?H ?d ?Kp = Some (map (\<lambda>h. cols (h * ?d) ?d ?Kp) [0..<?H])"
    using split_heads_rect[of Tk ?H ?d ?Kp] K m0 assms(6) by (simp add: cols_def)
  have sV: "split_heads ?H ?d ?Vp = Some (map (\<lambda>h. cols (h * ?d) ?d ?Vp) [0..<?H])"
    using split_heads_rect[of Tk ?H ?d ?Vp] V m0 assms(6) by (simp add: cols_def)
  let ?att = "\<lambda>h. head_attention ?d (cols (h * ?d) ?d ?Qp) (cols (h * ?d) ?d ?Kp) (cols (h * ?d) ?d ?Vp)
      key_mask (keeps h)"
  have sa: "map_option fst (Self_Attention (cols (h * ?d) ?d ?Qp) (cols (h * ?d) ?d ?Kp)
      (cols (h * ?d) ?d ?Vp) key_mask (keeps h)) = Some (?att h)" if "h < ?H" for h
  proof -
    have c: "is_mat Tq ?d (cols (h * ?d) ?d ?Qp)" "is_mat Tk ?d (cols (h * ?d) ?d ?Kp)"
      "is_mat Tk ?d (cols (h * ?d) ?d ?Vp)"
      using cols_shape[OF _ that] P K V m0(4) by simp_all
    then have "length (cols (h * ?d) ?d ?Vp) = Tk" by (simp add: is_mat_iff)
    then show ?thesis
      using Self_Attention_Some[OF c(1,2) _ assms(5,6) m0(2) assms(7)] by (simp add: head_attention_def)
  qed
  have th: "those (map (\<lambda>h. map_option fst (Self_Attention (map (\<lambda>h. cols (h * ?d) ?d ?Qp) [0..<?H] ! h)
      (map (\<lambda>h. cols (h * ?d) ?d ?Kp) [0..<?H] ! h) (map (\<lambda>h. cols (h * ?d) ?d ?Vp) [0..<?H] ! h)
      key_mask (keeps h))) [0..<?H]) = Some (map ?att [0..<?H])"
    using sa by (intro those_map_Some) auto
  have hs: "\<forall>h < ?H. is_mat Tq ?d (map ?att [0..<?H] ! h)"
  proof (intro allI impI)
    fix h assume "h < ?H"
    then have c: "is_mat Tq ?d (cols (h * ?d) ?d ?Qp)" "is_mat Tk ?d (cols (h * ?d) ?d ?Vp)"
      using cols_shape[OF _ \<open>h < ?H\<close>] P V m0(4) by simp_all
    have "is_mat Tq ?d (?att h)"
      unfolding head_attention_def by (rule matmul_shape[OF _ c(2) assms(6)]) (use c(1) in \<open>simp add: is_mat_iff\<close>)
    then show "is_mat Tq ?d (map ?att [0..<?H] ! h)" using \<open>h < ?H\<close> by simp
  qed
  note mg = merge_heads_rect[OF _ m0(1) hs assms(5) m0(2)]
  note rect = concat_heads_rect[OF hs]
  have lq: "length Q = Tq" using assms(2) by (simp add: is_mat_iff)
  show ?thesis
    unfolding MHA_forward_def using P K V sQ sK sV th mg m0(3,4)
      linear_rows_shape[OF lin(4) D, of Tq] rect lq
    by (simp add: MHA_spec_def Let_def)
qed

subsection \<open>Head counts that do not divide the hidden size\<close>

lemma MHA_init_Some:
  "MHA_init hidden heads Wq Wk Wv Wo = Some m \<Longrightarrow>
   0 < heads \<and> num_head m = heads \<and> head_dim m = hidden div heads \<and> hidden_dim m = hidden
   \<and> lin_weight (K_fc m) = Wk \<and> lin_bias (K_fc m) = None"
  by (auto simp: MHA_init_def split: if_splits)

lemma split_heads_length:
  assumes "split_heads H d X = Some hs" "h < H"
  shows "length (hs ! h) * (H * d) = length (concat X)"
proof -
  obtain rows where "view_cols (H * d) (concat X) = Some rows"
    and hs: "hs = map (\<lambda>h. map (\<lambda>r. take d (drop (h * d) r)) rows) [0..<H]"
    using assms(1) by (auto simp: split_heads_def)
  then show ?thesis using view_cols_length assms(2) by auto
qed

lemma Self_Attention_mask_mismatch:
  "length m \<noteq> length K \<Longrightarrow> Self_Attention Q K V (Some m) keep = None"
  by (simp add: Self_Attention_def)

lemma indivisible_heads_rows:
  fixes hidden heads T n :: nat
  assumes "hidden mod heads \<noteq> 0" "0 < heads" "0 < T"
    and "n * (heads * (hidden div heads)) = T * hidden"
  shows "n \<noteq> T"
proof
  assume "n = T"
  have "heads * (hidden div heads) + hidden mod heads = hidden" by simp
  then have "heads * (hidden div heads) < hidden" using assms(1) by linarith
  then have "T * (heads * (hidden div heads)) < T * hidden" using assms(3) by simp
  with assms(4) \<open>n = T\<close> show False by simp
qed

text \<open>
  C9. \<^verbatim>\<open>MHA.__init__\<close> accepts a head count that does not divide
  \<^verbatim>\<open>hidden_dim\<close> (it only computes \<^verbatim>\<open>hidden_dim // num_head\<close>). Then
  \<^verbatim>\<open>view(batch_size, -1, H, d)\<close> regroups the features into more rows than there are
  frames, and with the padding mask that \<^verbatim>\<open>AEBlock1\<close> always passes,
  \<^verbatim>\<open>MHA.forward\<close> fails for every input.
\<close>

theorem MHA_indivisible_heads_error:
  assumes "MHA_init hidden heads Wq Wk Wv Wo = Some m" "hidden mod heads \<noteq> 0"
    and "is_mat hidden hidden Wk" "0 < length X" "length msk = length X"
  shows "MHA_forward m Q_input X V_input (Some msk) keeps = None"
proof -
  let ?H = heads and ?d = "hidden div heads"
  have m: "0 < heads" "num_head m = heads" "head_dim m = hidden div heads"
    "lin_weight (K_fc m) = Wk" "lin_bias (K_fc m) = None"
    using MHA_init_Some[OF assms(1)] by simp_all
  have lenK: "length (concat (map (linear_fwd (K_fc m)) X)) = length X * hidden"
    using assms(3) m(4,5)
    by (subst length_concat_map_const[where n = hidden]) (auto simp: linear_fwd_def is_mat_iff)
  have head0: "those (map (\<lambda>h. map_option fst (Self_Attention (Qs ! h) (Ks ! h) (Vs ! h) (Some msk)
      (keeps h))) [0..<heads]) = None"
    if "linear_rows (K_fc m) X = Some Kp" "split_heads heads (hidden div heads) Kp = Some Ks"
    for Qs Kp Ks Vs
  proof (rule those_None_mem)
    have "length (Ks ! 0) \<noteq> length X"
      using split_heads_length[OF that(2) m(1)] linear_rows_SomeD[OF that(1)] lenK
        indivisible_heads_rows[OF assms(2) m(1) assms(4)]
      by simp
    then have "Self_Attention (Qs ! 0) (Ks ! 0) (Vs ! 0) (Some msk) (keeps 0) = None"
      using assms(5) by (intro Self_Attention_mask_mismatch) simp
    then show "None \<in> set (map (\<lambda>h. map_option fst (Self_Attention (Qs ! h) (Ks ! h) (Vs ! h)
        (Some msk) (keeps h))) [0..<heads])"
      using m(1) by (auto simp: image_iff intro!: bexI[of _ 0])
  qed
  show ?thesis
    unfolding MHA_forward_def using head0 m(2,3)
    by (intro bind_eq_NoneI) auto
qed

subsection \<open>Witnesses\<close>

theorem padding_mask_hides_signal_witness:
  "is_mat 1 1 [[1 :: real]] \<and> is_mat 2 1 [[5], [2 :: real]] \<and> is_mat 2 1 [[7], [2 :: real]]
   \<and> length [[0], [0 :: real]] = 2 \<and> (0::nat) < 1 \<and> (0::nat) < 2
   \<and> length [[0, 1], [2, 3 :: real]] = 2 \<and> (0::nat) < 2 \<and> 0 \<in> set ([[0, 1], [2, 3 :: real]] ! 0)
   \<and> [[5], [2 :: real]] ! 1 = [[7], [2]] ! 1
   \<and> Self_Attention [[1]] [[5], [2]] [[0], [0]] (Some (padding_mask_audio [[0, 1], [2, 3]])) (\<lambda>_ _. True)
     = Self_Attention [[1]] [[7], [2]] [[0], [0]] (Some (padding_mask_audio [[0, 1], [2, 3]])) (\<lambda>_ _. True)"
proof -
  have h: "is_mat 1 1 [[1 :: real]]" "is_mat 2 1 [[5], [2 :: real]]" "is_mat 2 1 [[7], [2 :: real]]"
    "length [[0], [0 :: real]] = 2" "(0::nat) < 1" "(0::nat) < 2"
    "length [[0, 1], [2, 3 :: real]] = 2" "0 \<in> set ([[0, 1], [2, 3 :: real]] ! 0)"
    by (simp_all add: is_mat_iff)
  have k: "\<forall>j < 2. j \<noteq> 0 \<longrightarrow> [[5], [2 :: real]] ! j = [[7], [2]] ! j"
    by (auto simp: less_Suc_eq numeral_2_eq_2)
  show ?thesis
    using padding_mask_hides_signal[OF h(1-6,5,7,6,8) k, of "\<lambda>_ _. True"] h by simp
qed

theorem Self_Attention_masked_keys_witness:
  "is_mat 1 1 [[1 :: real]] \<and> is_mat 2 1 [[1], [2 :: real]] \<and> is_mat 2 1 [[1], [3 :: real]]
   \<and> length [[0], [0 :: real]] = 2 \<and> (0::nat) < 1 \<and> (0::nat) < 2 \<and> (0::nat) < 1
   \<and> length [True, False] = 2
   \<and> [[1], [2 :: real]] ! 0 = [[1], [3]] ! 0 \<and> \<not> [True, False] ! 1
   \<and> Self_Attention [[1]] [[1], [2]] [[0], [0]] (Some [True, False]) (\<lambda>_ _. True)
     = Self_Attention [[1]] [[1], [3]] [[0], [0]] (Some [True, False]) (\<lambda>_ _. True)"
proof -
  have h: "is_mat 1 1 [[1 :: real]]" "is_mat 2 1 [[1], [2 :: real]]" "is_mat 2 1 [[1], [3 :: real]]"
    "length [[0], [0 :: real]] = 2" "(0::nat) < 1" "(0::nat) < 2" "length [True, False] = 2"
    by (simp_all add: is_mat_iff)
  have k: "\<forall>j < 2. [True, False] ! j \<longrightarrow> [[1], [2 :: real]] ! j = [[1], [3]] ! j"
    by (auto simp: less_Suc_eq numeral_2_eq_2)
  show ?thesis
    using Self_Attention_masked_keys[OF h(1-4) h(5,6,5,7) k, of "(\<lambda>_ _. True)"] h k by simp
qed

theorem Self_Attention_rows_keep_all_witness:
  "is_mat 1 1 [[0 :: real]] \<and> is_mat 1 1 [[0 :: real]] \<and> length [[1 :: real]] = 1
   \<and> (0::nat) < 1 \<and> mask_fits 1 None
   \<and> (\<exists>att P. Self_Attention [[0]] [[0]] [[1]] None (\<lambda>_ _. True) = Some (att, P)
        \<and> length P = 1 \<and> (\<forall>row \<in> set P. sum_list row = 10 / 9))"
proof -
  have h: "is_mat 1 1 [[0 :: real]]" "length [[1 :: real]] = 1" "(0::nat) < 1" "mask_fits 1 None"
    by (simp_all add: is_mat_iff mask_fits_def)
  show ?thesis using Self_Attention_rows_keep_all[OF h(1,1,2,3,3,3,4)] h by blast
qed

theorem split_merge_heads_witness:
  "is_mat 1 (2 * 2) [[1, 2, 3, 4 :: real]] \<and> (0::nat) < 1 \<and> (0::nat) < 2
   \<and> (\<exists>hs. split_heads 2 2 [[1, 2, 3, 4]] = Some hs \<and> merge_heads (2 * 2) hs = Some [[1, 2, 3, 4]])"
proof -
  have h: "is_mat 1 (2 * 2) [[1, 2, 3, 4 :: real]]" "(0::nat) < 1" "(0::nat) < 2"
    by (simp_all add: is_mat_iff)
  show ?thesis using split_merge_heads[OF h(1,2,3,3)] h by blast
qed

theorem MHA_indivisible_heads_error_witness:
  "MHA_init 3 2 (replicate 3 (replicate 3 (0::real))) (replicate 3 (replicate 3 (0::real))) (replicate 3 (replicate 3 (0::real))) (replicate 3 (replicate 3 (0::real)))
     = Some \<lparr>hidden_dim = 3, num_head = 2, head_dim = 1,
        Q_fc = \<lparr>lin_weight = replicate 3 (replicate 3 (0::real)), lin_bias = None\<rparr>,
        K_fc = \<lparr>lin_weight = replicate 3 (replicate 3 (0::real)), lin_bias = None\<rparr>,
        V_fc = \<lparr>lin_weight = replicate 3 (replicate 3 (0::real)), lin_bias = None\<rparr>,
        Out_fc = \<lparr>lin_weight = replicate 3 (replicate 3 (0::real)), lin_bias = None\<rparr>\<rparr>
   \<and> (3::nat) mod 2 \<noteq> 0 \<and> is_mat 3 3 (replicate 3 (replicate 3 (0::real))) \<and> 0 < length [[1, 2, 3 :: real]]
   \<and> length [True] = length [[1, 2, 3 :: real]]
   \<and> MHA_forward \<lparr>hidden_dim = 3, num_head = 2, head_dim = 1,
        Q_fc = \<lparr>lin_weight = replicate 3 (replicate 3 (0::real)), lin_bias = None\<rparr>,
        K_fc = \<lparr>lin_weight = replicate 3 (replicate 3 (0::real)), lin_bias = None\<rparr>,
        V_fc = \<lparr>lin_weight = replicate 3 (replicate 3 (0::real)), lin_bias = None\<rparr>,
        Out_fc = \<lparr>lin_weight = replicate 3 (replicate 3 (0::real)), lin_bias = None\<rparr>\<rparr>
       [[1, 2, 3]] [[1, 2, 3]] [[1, 2, 3]] (Some [True]) (\<lambda>_ _ _. True) = None"
proof -
  have h: "MHA_init 3 2 (replicate 3 (replicate 3 (0::real))) (replicate 3 (replicate 3 (0::real))) (replicate 3 (replicate 3 (0::real))) (replicate 3 (replicate 3 (0::real)))
     = Some \<lparr>hidden_dim = 3, num_head = 2, head_dim = 1,
        Q_fc = \<lparr>lin_weight = replicate 3 (replicate 3 (0::real)), lin_bias = None\<rparr>,
        K_fc = \<lparr>lin_weight = replicate 3 (replicate 3 (0::real)), lin_bias = None\<rparr>,
        V_fc = \<lparr>lin_weight = replicate 3 (replicate 3 (0::real)), lin_bias = None\<rparr>,
        Out_fc = \<lparr>lin_weight = replicate 3 (replicate 3 (0::real)), lin_bias = None\<rparr>\<rparr>"
    by (simp add: MHA_init_def)
  have h2: "(3::nat) mod 2 \<noteq> 0" "is_mat 3 3 (replicate 3 (replicate 3 (0::real)))" "0 < length [[1, 2, 3 :: real]]"
    "length [True] = length [[1, 2, 3 :: real]]"
    by (simp_all add: is_mat_iff)
  show ?thesis using MHA_indivisible_heads_error[OF h h2] h h2 by blast
qed

theorem MHA_forward_refines_spec_witness:
  "mha_wf 2 (the (MHA_init 2 2 [[1, 0], [0, 1]] [[1, 0], [0, 1]] [[1, 0], [0, 1]] [[1, 0], [0, 1]]))
   \<and> is_mat 1 2 [[1, 2 :: real]] \<and> (0::nat) < 1 \<and> mask_fits 1 None
   \<and> MHA_forward (the (MHA_init 2 2 [[1, 0], [0, 1]] [[1, 0], [0, 1]] [[1, 0], [0, 1]] [[1, 0], [0, 1]]))
       [[1, 2]] [[1, 2]] [[1, 2]] None (\<lambda>_ _ _. True)
     = Some (MHA_spec (the (MHA_init 2 2 [[1, 0], [0, 1]] [[1, 0], [0, 1]] [[1, 0], [0, 1]] [[1, 0], [0, 1]]))
       [[1, 2]] [[1, 2]] [[1, 2]] None (\<lambda>_ _ _. True))"
proof -
  have h: "mha_wf 2 (the (MHA_init 2 2 [[1, 0], [0, 1]] [[1, 0], [0, 1]] [[1, 0], [0, 1]] [[1, 0], [0, 1]]))"
    "is_mat 1 2 [[1, 2 :: real]]" "(0::nat) < 1" "mask_fits 1 None"
    by (simp_all add: MHA_init_def mha_wf_def linear_wf_def is_mat_iff mask_fits_def)
  show ?thesis using MHA_forward_refines_spec[OF h(1,2,2,2,3,3,4)] h by blast
qed

end
