(* ===== verification/Encoder.thy ===== *)
theory Encoder
  imports Attention
begin

text \<open>
  The attention encoder of \<^verbatim>\<open>audio_model.py\<close>: \<^verbatim>\<open>FFN\<close> (lines 60-83),
  \<^verbatim>\<open>nn.LayerNorm\<close>, \<^verbatim>\<open>AELayer1\<close> (lines 149-179) and \<^verbatim>\<open>AEBlock1\<close>
  (lines 182-206), for one sample. The module's \<^verbatim>\<open>training\<close> flag is an argument;
  the Bernoulli draws of every dropout are arguments too, gathered per layer in the record
  \<open>ae_draws\<close> (per head for the attention dropout). Shape errors of \<^verbatim>\<open>nn.Linear\<close>
  and \<^verbatim>\<open>nn.LayerNorm\<close> are \<open>None\<close>. The lemmas show that the feed-forward residual
  is added twice in \<^verbatim>\<open>AELayer1\<close>, that the layer norm centres each row, and how
  \<^verbatim>\<open>AEBlock1\<close> threads one padding mask through its layers.
\<close>

section \<open>Position-wise feed-forward network\<close>

record ffn =
  ffn_hidden_dim :: nat
  ffn_inner_dim :: nat
  fc1 :: linear
  fc2 :: linear

definition FFN_init :: "nat \<Rightarrow> nat \<Rightarrow> mat \<Rightarrow> vec \<Rightarrow> mat \<Rightarrow> vec \<Rightarrow> ffn" where
  "FFN_init hidden inner W1 b1 W2 b2 =
     \<lparr>ffn_hidden_dim = hidden, ffn_inner_dim = inner,
      fc1 = \<lparr>lin_weight = W1, lin_bias = Some b1\<rparr>, fc2 = \<lparr>lin_weight = W2, lin_bias = Some b2\<rparr>\<rparr>"

definition FFN_forward :: "ffn \<Rightarrow> bool \<Rightarrow> (nat \<Rightarrow> nat \<Rightarrow> bool) \<Rightarrow> mat \<Rightarrow> mat option" where
  "FFN_forward f training keep x = do {
     let res = x;
     h \<leftarrow> linear_rows (fc1 f) x;
     let h = relu_mat h;
     let h = dropout_mat (1 / 10) training keep h;
     y \<leftarrow> linear_rows (fc2 f) h;
     Some (madd y res)
   }"

section \<open>Layer normalisation\<close>

text \<open>\<^verbatim>\<open>nn.LayerNorm(hidden_dim)\<close> over the last axis: biased variance,
  \<open>eps = 1e-5\<close>, an element-wise weight and bias.\<close>

record layer_norm =
  ln_weight :: vec
  ln_bias :: vec
  ln_eps :: real

definition LayerNorm_init :: "nat \<Rightarrow> layer_norm" where
  "LayerNorm_init n = \<lparr>ln_weight = replicate n 1, ln_bias = replicate n 0, ln_eps = 1 / 100000\<rparr>"

definition mean :: "vec \<Rightarrow> real" where
  "mean v = sum_list v / real (length v)"

definition layer_norm_row :: "layer_norm \<Rightarrow> vec \<Rightarrow> vec" where
  "layer_norm_row L x =
     (let mu = mean x;
          var = mean (map (\<lambda>v. (v - mu)\<^sup>2) x)
      in map (\<lambda>((v, g), b). (v - mu) / sqrt (var + ln_eps L) * g + b)
           (zip (zip x (ln_weight L)) (ln_bias L)))"

definition LayerNorm_forward :: "layer_norm \<Rightarrow> mat \<Rightarrow> mat option" where
  "LayerNorm_forward L X =
     (if list_all (\<lambda>r. length r = length (ln_weight L)) X then Some (map (layer_norm_row L) X)
      else None)"

section \<open>Encoder layer and block\<close>

record ae_layer =
  ae_MHA :: mha
  layerNorm1 :: layer_norm
  layerNorm2 :: layer_norm
  ae_ffn :: ffn

text \<open>The dropout draws one layer consumes: per head for the attention, then
  \<^verbatim>\<open>dropout1\<close>, the dropout inside the FFN, and \<^verbatim>\<open>dropout2\<close>.\<close>

record ae_draws =
  att_keep :: "nat \<Rightarrow> nat \<Rightarrow> nat \<Rightarrow> bool"
  keep1 :: "nat \<Rightarrow> nat \<Rightarrow> bool"
  ffn_keep :: "nat \<Rightarrow> nat \<Rightarrow> bool"
  keep2 :: "nat \<Rightarrow> nat \<Rightarrow> bool"

definition AELayer1_forward ::
  "ae_layer \<Rightarrow> bool \<Rightarrow> ae_draws \<Rightarrow> mat \<Rightarrow> bool list option \<Rightarrow> mat option" where
  "AELayer1_forward l training dr x key_mask = do {
     output \<leftarrow> MHA_forward (ae_MHA l) x x x key_mask (att_keep dr);
     let output = madd x (dropout_mat (1 / 10) training (keep1 dr) output);
     output \<leftarrow> LayerNorm_forward (layerNorm1 l) output;
     output' \<leftarrow> FFN_forward (ae_ffn l) training (ffn_keep dr) output;
     let output = madd output (dropout_mat (1 / 10) training (keep2 dr) output');
     LayerNorm_forward (layerNorm2 l) output
   }"

text \<open>\<^verbatim>\<open>AELayer1.__init__\<close> builds its modules from the hyper-parameters; the random
  initial weights of the five \<^verbatim>\<open>nn.Linear\<close> modules are arguments. The module
  fails exactly when \<^verbatim>\<open>MHA.__init__\<close> fails (zero heads).\<close>

type_synonym ae_weights = "mat \<times> mat \<times> mat \<times> mat \<times> mat \<times> vec \<times> mat \<times> vec"

definition AELayer1_init :: "nat \<Rightarrow> nat \<Rightarrow> nat \<Rightarrow> ae_weights \<Rightarrow> ae_layer option" where
  "AELayer1_init hidden heads inner w =
     (case w of (Wq, Wk, Wv, Wo, W1, b1, W2, b2) \<Rightarrow>
       map_option (\<lambda>m. \<lparr>ae_MHA = m, layerNorm1 = LayerNorm_init hidden,
           layerNorm2 = LayerNorm_init hidden, ae_ffn = FFN_init hidden inner W1 b1 W2 b2\<rparr>)
         (MHA_init hidden heads Wq Wk Wv Wo))"

text \<open>The loop \<^verbatim>\<open>for layer in self.AE1: x = layer(x, masking)\<close>; layer \<open>i\<close>
  takes the draws \<open>dr i\<close>.\<close>

fun ae_layers ::
  "ae_layer list \<Rightarrow> bool \<Rightarrow> (nat \<Rightarrow> ae_draws) \<Rightarrow> bool list \<Rightarrow> mat \<Rightarrow> mat option" where
  "ae_layers [] training dr masking x = Some x"
| "ae_layers (l # ls) training dr masking x =
     Option.bind (AELayer1_forward l training (dr 0) x (Some masking))
       (ae_layers ls training (\<lambda>i. dr (Suc i)) masking)"

text \<open>\<^verbatim>\<open>nn.ModuleList([AELayer1(...) for i in range(n_layers)])\<close>; layer \<open>i\<close>
  is initialised with the weights \<open>ws i\<close>.\<close>

definition AEBlock1_init :: "nat \<Rightarrow> nat \<Rightarrow> nat \<Rightarrow> nat \<Rightarrow> (nat \<Rightarrow> ae_weights) \<Rightarrow> ae_layer list option" where
  "AEBlock1_init hidden heads inner n_layers ws =
     those (map (\<lambda>i. AELayer1_init hidden heads inner (ws i)) [0..<n_layers])"

definition AEBlock1_forward ::
  "ae_layer list \<Rightarrow> bool \<Rightarrow> (nat \<Rightarrow> ae_draws) \<Rightarrow> mat \<Rightarrow> mat option" where
  "AEBlock1_forward AE1 training dr x =
     (let masking = padding_mask_audio x in ae_layers AE1 training dr masking x)"

section \<open>Well-formed encoder modules\<close>

definition ln_wf :: "nat \<Rightarrow> layer_norm \<Rightarrow> bool" where
  "ln_wf D L \<longleftrightarrow> length (ln_weight L) = D \<and> length (ln_bias L) = D \<and> 0 < ln_eps L"

definition ffn_wf :: "nat \<Rightarrow> ffn \<Rightarrow> bool" where
  "ffn_wf D f \<longleftrightarrow> 0 < ffn_inner_dim f
     \<and> linear_wf D (ffn_inner_dim f) (fc1 f) \<and> linear_wf (ffn_inner_dim f) D (fc2 f)"

definition ae_layer_wf :: "nat \<Rightarrow> ae_layer \<Rightarrow> bool" where
  "ae_layer_wf D l \<longleftrightarrow> mha_wf D (ae_MHA l) \<and> ln_wf D (layerNorm1 l) \<and> ln_wf D (layerNorm2 l)
     \<and> ffn_wf D (ae_ffn l)"

text \<open>Initial weights of the shapes \<^verbatim>\<open>nn.Linear\<close> allocates in
  \<^verbatim>\<open>AELayer1(hidden, num_head, inner)\<close>.\<close>

definition ae_weights_wf :: "nat \<Rightarrow> nat \<Rightarrow> ae_weights \<Rightarrow> bool" where
  "ae_weights_wf hidden inner w =
     (case w of (Wq, Wk, Wv, Wo, W1, b1, W2, b2) \<Rightarrow>
        is_mat hidden hidden Wq \<and> is_mat hidden hidden Wk \<and> is_mat hidden hidden Wv
        \<and> is_mat hidden hidden Wo \<and> is_mat inner hidden W1 \<and> length b1 = inner
        \<and> is_mat hidden inner W2 \<and> length b2 = hidden)"

section \<open>Lemmas on the encoder\<close>

lemma length_layer_norm_row [simp]:
  "length (layer_norm_row L x) = min (length x) (min (length (ln_weight L)) (length (ln_bias L)))"
  by (simp add: layer_norm_row_def Let_def)

lemma LayerNorm_shape:
  assumes "ln_wf D L" "is_mat T D X"
  shows "LayerNorm_forward L X = Some (map (layer_norm_row L) X) \<and> is_mat T D (map (layer_norm_row L) X)"
  using assms by (auto simp: LayerNorm_forward_def ln_wf_def is_mat_iff list_all_iff)

lemma FFN_forward_Some:
  assumes "ffn_wf D f" "0 < D" "is_mat T D X"
  shows "FFN_forward f tr keep X = Some (madd (map (linear_fwd (fc2 f))
     (dropout_mat (1 / 10) tr keep (relu_mat (map (linear_fwd (fc1 f)) X)))) X)"
proof -
  have f: "0 < ffn_inner_dim f" "linear_wf D (ffn_inner_dim f) (fc1 f)"
    "linear_wf (ffn_inner_dim f) D (fc2 f)" using assms(1) by (simp_all add: ffn_wf_def)
  note h = linear_rows_shape[OF f(2,1) assms(3)]
  have "is_mat T (ffn_inner_dim f) (dropout_mat (1 / 10) tr keep (relu_mat (map (linear_fwd (fc1 f)) X)))"
    using h by (intro dropout_mat_shape relu_mat_shape) simp
  then show ?thesis using h linear_rows_shape[OF f(3) assms(2)] by (simp add: FFN_forward_def)
qed

lemma FFN_shape:
  assumes "ffn_wf D f" "0 < D" "is_mat T D X"
  shows "\<exists>Y. FFN_forward f tr keep X = Some Y \<and> is_mat T D Y"
proof -
  let ?Z = "dropout_mat (1 / 10) tr keep (relu_mat (map (linear_fwd (fc1 f)) X))"
  have l: "linear_wf (ffn_inner_dim f) D (fc2 f)" using assms(1) by (simp add: ffn_wf_def)
  have "length ?Z = T" using assms(3) by (simp add: relu_mat_def is_mat_iff)
  then have "is_mat T D (map (linear_fwd (fc2 f)) ?Z)"
    using length_linear_fwd[OF l] by (simp add: is_mat_iff)
  then show ?thesis using FFN_forward_Some[OF assms] madd_shape[OF _ assms(3)] by blast
qed

lemma AELayer1_shape:
  assumes "ae_layer_wf D l" "is_mat T D x" "0 < T" "mask_fits T key_mask"
  shows "\<exists>y. AELayer1_forward l tr dr x key_mask = Some y \<and> is_mat T D y"
proof -
  have w: "mha_wf D (ae_MHA l)" "ln_wf D (layerNorm1 l)" "ln_wf D (layerNorm2 l)" "ffn_wf D (ae_ffn l)"
    using assms(1) by (simp_all add: ae_layer_wf_def)
  then have D: "0 < D" by (auto simp: mha_wf_def)
  obtain o1 where o1: "MHA_forward (ae_MHA l) x x x key_mask (att_keep dr) = Some o1" "is_mat T D o1"
    using MHA_forward_shape[OF w(1) assms(2-4)] by blast
  let ?r1 = "madd x (dropout_mat (1 / 10) tr (keep1 dr) o1)"
  have r1: "is_mat T D ?r1" using assms(2) o1(2) by (intro madd_shape dropout_mat_shape)
  note n1 = LayerNorm_shape[OF w(2) r1]
  obtain o2 where o2: "FFN_forward (ae_ffn l) tr (ffn_keep dr) (map (layer_norm_row (layerNorm1 l)) ?r1)
      = Some o2" "is_mat T D o2"
    using FFN_shape[OF w(4) D] n1 by blast
  let ?r2 = "madd (map (layer_norm_row (layerNorm1 l)) ?r1) (dropout_mat (1 / 10) tr (keep2 dr) o2)"
  have r2: "is_mat T D ?r2" using n1 o2(2) by (intro madd_shape dropout_mat_shape) simp_all
  show ?thesis
    using o1(1) n1 o2(1) LayerNorm_shape[OF w(3) r2] by (simp add: AELayer1_forward_def)
qed

lemma ae_layers_shape:
  assumes "\<forall>l \<in> set ls. ae_layer_wf D l" "is_mat T D x" "0 < T" "length masking = T"
  shows "\<exists>y. ae_layers ls tr dr masking x = Some y \<and> is_mat T D y"
  using assms
proof (induction ls arbitrary: dr x)
  case Nil
  then show ?case by simp
next
  case (Cons l ls)
  have "mask_fits T (Some masking)" using Cons.prems(4) by (simp add: mask_fits_def)
  then obtain y where "AELayer1_forward l tr (dr 0) x (Some masking) = Some y" "is_mat T D y"
    using AELayer1_shape[of D l T x "Some masking" tr "dr 0"] Cons.prems(1-3) by auto
  then show ?case using Cons.IH[of y] Cons.prems by simp
qed

lemma layer_norm_row_init:
  assumes "length x = n"
  shows "layer_norm_row (LayerNorm_init n) x
    = map (\<lambda>v. (v - mean x) / sqrt (mean (map (\<lambda>v. (v - mean x)\<^sup>2) x) + 1 / 100000)) x"
  using assms by (simp add: layer_norm_row_def LayerNorm_init_def Let_def zip_replicate2 comp_def)

lemma sum_list_centred: "sum_list (map (\<lambda>v. v - mean x) x) = 0"
proof (cases "x = []")
  case False
  then have "real (length x) * mean x = sum_list x" by (simp add: mean_def)
  then show ?thesis by (simp add: sum_list_subtractf sum_list_triv)
qed simp

lemma AELayer1_init_wf:
  assumes "0 < heads" "hidden mod heads = 0" "0 < hidden" "0 < inner" "ae_weights_wf hidden inner w"
  shows "\<exists>l. AELayer1_init hidden heads inner w = Some l \<and> ae_layer_wf hidden l"
proof -
  have e: "heads * (hidden div heads) = hidden"
    using assms(2) by (simp add: mod_eq_0_iff_dvd)
  then have "0 < hidden div heads" using assms(3) by (metis gr0I mult_0_right)
  then show ?thesis
    using assms(1,4,5) e
    by (cases w) (auto simp: AELayer1_init_def MHA_init_def ae_layer_wf_def ae_weights_wf_def
        mha_wf_def linear_wf_def ln_wf_def ffn_wf_def LayerNorm_init_def FFN_init_def)
qed

lemma AEBlock1_init_wf:
  assumes "0 < heads" "hidden mod heads = 0" "0 < hidden" "0 < inner"
    and "\<forall>i < n_layers. ae_weights_wf hidden inner (ws i)"
  shows "\<exists>ls. AEBlock1_init hidden heads inner n_layers ws = Some ls \<and> length ls = n_layers
    \<and> (\<forall>l \<in> set ls. ae_layer_wf hidden l)"
proof -
  have "\<forall>i < n_layers. \<exists>l. AELayer1_init hidden heads inner (ws i) = Some l \<and> ae_layer_wf hidden l"
    using AELayer1_init_wf[OF assms(1-4)] assms(5) by blast
  then obtain g where g: "\<forall>i < n_layers. AELayer1_init hidden heads inner (ws i) = Some (g i)
      \<and> ae_layer_wf hidden (g i)"
    by metis
  then have "AEBlock1_init hidden heads inner n_layers ws = Some (map g [0..<n_layers])"
    unfolding AEBlock1_init_def by (intro those_map_Some) auto
  then show ?thesis using g by auto
qed

lemma AEBlock1_width_None:
  assumes "mha_wf D (ae_MHA l)" "r \<in> set x" "length r \<noteq> D"
  shows "AEBlock1_forward (l # ls) tr dr x = None"
  using MHA_forward_width_None[OF assms]
  by (simp add: AEBlock1_forward_def AELayer1_forward_def)

subsection \<open>Properties of the encoder\<close>

lemma AEBlock1_forward_shape:
  assumes "list_all (ae_layer_wf D) ls" "is_mat T D x" "0 < T"
  shows "\<exists>y. AEBlock1_forward ls tr dr x = Some y \<and> is_mat T D y"
proof -
  have "length (padding_mask_audio x) = T"
    using assms(2) by (simp add: padding_mask_audio_def is_mat_iff)
  then show ?thesis
    using ae_layers_shape[of ls D T x] assms by (simp add: AEBlock1_forward_def list_all_iff)
qed

text \<open>
  C10. Shape preservation of \<^verbatim>\<open>AEBlock1\<close>: for well-formed layers of hidden size
  \<open>D\<close> (every \<^verbatim>\<open>MHA\<close> with \<^verbatim>\<open>num_head * head_dim = D\<close>, layer norms and
  feed-forward networks of matching sizes) and an input of \<open>T > 0\<close> frames of \<open>D\<close>
  features, the block raises no shape error, whatever the mode and the dropout draws, and
  returns \<open>T\<close> frames of \<open>D\<close> features. The invariant \<open>is_mat T D\<close> is preserved
  by every layer of the loop.
\<close>

theorem AEBlock1_shape:
  assumes "list_all (ae_layer_wf D) ls" "is_mat T D x" "0 < T"
  shows "\<exists>y. AEBlock1_forward ls tr dr x = Some y \<and> is_mat T D y"
  using AEBlock1_forward_shape[OF assms] .

text \<open>
  C11. In evaluation mode (\<^verbatim>\<open>model.eval()\<close>, so \<^verbatim>\<open>dropout1\<close>,
  \<^verbatim>\<open>dropout2\<close> and the FFN dropout are the identity), \<^verbatim>\<open>AELayer1\<close> feeds
  \<open>2 h + fc2 (relu (fc1 h))\<close> to \<^verbatim>\<open>layerNorm2\<close>, where \<open>h\<close> is the output of
  \<^verbatim>\<open>layerNorm1\<close>: \<^verbatim>\<open>FFN.forward\<close> already adds its residual
  \<^verbatim>\<open>res = x\<close>, and \<^verbatim>\<open>AELayer1.forward\<close> adds \<open>h\<close> a second time.
\<close>

theorem AELayer1_eval_double_residual:
  "AELayer1_forward l False dr x key_mask = do {
     a \<leftarrow> MHA_forward (ae_MHA l) x x x key_mask (att_keep dr);
     h \<leftarrow> LayerNorm_forward (layerNorm1 l) (madd x a);
     u \<leftarrow> linear_rows (fc1 (ae_ffn l)) h;
     y \<leftarrow> linear_rows (fc2 (ae_ffn l)) (relu_mat u);
     LayerNorm_forward (layerNorm2 l) (madd (map (map (\<lambda>v. 2 * v)) h) y)
   }"
  by (simp add: AELayer1_forward_def FFN_forward_def madd_residual_twice)

lemma layer_norm_row_init_centred:
  "length x = n \<Longrightarrow> sum_list (layer_norm_row (LayerNorm_init n) x) = 0"
  by (simp add: layer_norm_row_init sum_list_map_divide sum_list_centred)

lemma layer_norm_row_init_energy:
  assumes "length x = n"
  shows "sum_list (map (\<lambda>v. v\<^sup>2) (layer_norm_row (LayerNorm_init n) x)) \<le> real n"
proof (cases "n = 0")
  case False
  let ?S = "sum_list (map (\<lambda>v. (v - mean x)\<^sup>2) x)"
  have S: "0 \<le> ?S" by (rule sum_list_nonneg) auto
  have var: "mean (map (\<lambda>v. (v - mean x)\<^sup>2) x) = ?S / real n"
    using assms by (simp add: mean_def)
  have "sum_list (map (\<lambda>v. v\<^sup>2) (layer_norm_row (LayerNorm_init n) x))
      = ?S / (?S / real n + 1 / 100000)"
    using assms S by (simp add: layer_norm_row_init var comp_def power_divide sum_list_map_divide
        add_nonneg_pos)
  also have "\<dots> \<le> real n" using S False by (intro sum_sq_div_bound) simp_all
  finally show ?thesis .
qed (use assms in \<open>simp add: layer_norm_row_def\<close>)

lemma LayerNorm_init_rows:
  assumes "LayerNorm_forward (LayerNorm_init n) z = Some y" "r \<in> set y"
  shows "\<exists>x. length x = n \<and> r = layer_norm_row (LayerNorm_init n) x"
proof -
  have "length (ln_weight (LayerNorm_init n)) = n" by (simp add: LayerNorm_init_def)
  then have "list_all (\<lambda>r. length r = n) z" "y = map (layer_norm_row (LayerNorm_init n)) z"
    using assms(1) by (simp_all add: LayerNorm_forward_def split: if_splits)
  then show ?thesis using assms(2) by (auto simp: list_all_iff)
qed

lemma AELayer1_forward_SomeD:
  "AELayer1_forward l tr d x key_mask = Some y \<Longrightarrow> \<exists>z. LayerNorm_forward (layerNorm2 l) z = Some y"
  by (auto simp: AELayer1_forward_def Let_def split: Option.bind_splits)

lemma ae_layers_last_norm:
  "ae_layers ls tr dr masking x = Some y \<Longrightarrow> ls \<noteq> []
   \<Longrightarrow> \<exists>l \<in> set ls. \<exists>z. LayerNorm_forward (layerNorm2 l) z = Some y"
proof (induction ls arbitrary: dr x)
  case (Cons l ls)
  then obtain x' where x': "AELayer1_forward l tr (dr 0) x (Some masking) = Some x'"
    "ae_layers ls tr (\<lambda>i. dr (Suc i)) masking x' = Some y"
    by (auto split: Option.bind_splits)
  show ?case
  proof (cases "ls = []")
    case True
    then show ?thesis using x' AELayer1_forward_SomeD by auto
  next
    case False
    then show ?thesis using Cons.IH[OF x'(2)] by auto
  qed
qed simp

lemma those_Some_mem: "those xs = Some ys \<Longrightarrow> y \<in> set ys \<Longrightarrow> Some y \<in> set xs"
proof (induction xs arbitrary: ys)
  case (Cons x xs)
  then show ?case by (auto split: option.splits)
qed simp

lemma AEBlock1_init_norm2:
  assumes "AEBlock1_init hidden heads inner n_layers ws = Some ls" "l \<in> set ls"
  shows "layerNorm2 l = LayerNorm_init hidden"
proof -
  obtain i where "AELayer1_init hidden heads inner (ws i) = Some l"
    using those_Some_mem[OF assms(1)[unfolded AEBlock1_init_def] assms(2)] by auto
  then show ?thesis by (cases "ws i") (auto simp: AELayer1_init_def)
qed

text \<open>Running the block \<^verbatim>\<open>AEBlock1(hidden, heads, inner, n_layers)\<close> as its constructor
  builds it: it succeeds, and each output row is a row normalised by the initial
  \<^verbatim>\<open>layerNorm2\<close> of the last layer.\<close>

lemma AEBlock1_init_run:
  assumes "0 < heads" "hidden mod heads = 0" "0 < hidden" "0 < inner" "0 < n_layers"
    and "list_all (\<lambda>i. ae_weights_wf hidden inner (ws i)) [0..<n_layers]"
    and "is_mat T hidden x" "0 < T"
  shows "\<exists>ls y. AEBlock1_init hidden heads inner n_layers ws = Some ls
    \<and> AEBlock1_forward ls tr dr x = Some y \<and> is_mat T hidden y
    \<and> (\<forall>r \<in> set y. \<exists>v. length v = hidden \<and> r = layer_norm_row (LayerNorm_init hidden) v)"
proof -
  have "\<forall>i < n_layers. ae_weights_wf hidden inner (ws i)" using assms(6) by (simp add: list_all_iff)
  then obtain ls where ls: "AEBlock1_init hidden heads inner n_layers ws = Some ls"
    "length ls = n_layers" "\<forall>l \<in> set ls. ae_layer_wf hidden l"
    using AEBlock1_init_wf[OF assms(1-4)] by blast
  have "list_all (ae_layer_wf hidden) ls" using ls(3) by (simp add: list_all_iff)
  then obtain y where y: "AEBlock1_forward ls tr dr x = Some y" "is_mat T hidden y"
    using AEBlock1_forward_shape[OF _ assms(7,8), of ls tr dr] by blast
  have "ls \<noteq> []" using ls(2) assms(5) by auto
  then obtain l z where "l \<in> set ls" "LayerNorm_forward (layerNorm2 l) z = Some y"
    using ae_layers_last_norm y(1) by (fastforce simp: AEBlock1_forward_def)
  then have "LayerNorm_forward (LayerNorm_init hidden) z = Some y"
    using AEBlock1_init_norm2[OF ls(1)] by simp
  then show ?thesis using ls(1) y LayerNorm_init_rows by blast
qed

text \<open>
  C12. The encoder block as \<^verbatim>\<open>AEBlock1(hidden, heads, inner, n_layers)\<close> builds it (with
  at least one layer and a head count dividing \<open>hidden\<close>) runs on every input of
  \<open>T > 0\<close> frames of \<open>hidden\<close> features and returns centred rows: since every layer ends
  with \<^verbatim>\<open>layerNorm2\<close> (weight one, bias zero at initialisation), each output row sums to
  zero. This is the sequence the GRU of \<^verbatim>\<open>AudioRegressor\<close> reads.
\<close>

theorem AEBlock1_output_centred:
  assumes "0 < heads" "hidden mod heads = 0" "0 < hidden" "0 < inner" "0 < n_layers"
    and "list_all (\<lambda>i. ae_weights_wf hidden inner (ws i)) [0..<n_layers]"
    and "is_mat T hidden x" "0 < T"
  shows "\<exists>ls y. AEBlock1_init hidden heads inner n_layers ws = Some ls
    \<and> AEBlock1_forward ls tr dr x = Some y \<and> is_mat T hidden y \<and> list_all (\<lambda>r. sum_list r = 0) y"
  using AEBlock1_init_run[OF assms, of tr dr] layer_norm_row_init_centred
  by (fastforce simp: list_all_iff)

text \<open>
  C13. The same block bounds its output: every output row of \<open>hidden\<close> features has
  squares summing to at most \<open>hidden\<close> (the final \<^verbatim>\<open>layerNorm2\<close> divides by
  \<open>sqrt (var + 1e-5)\<close>), so each feature the GRU reads lies in
  \<open>[-sqrt hidden, sqrt hidden]\<close>, whatever the input and the weights.
\<close>

theorem AEBlock1_output_energy_bound:
  assumes "0 < heads" "hidden mod heads = 0" "0 < hidden" "0 < inner" "0 < n_layers"
    and "list_all (\<lambda>i. ae_weights_wf hidden inner (ws i)) [0..<n_layers]"
    and "is_mat T hidden x" "0 < T"
  shows "\<exists>ls y. AEBlock1_init hidden heads inner n_layers ws = Some ls
    \<and> AEBlock1_forward ls tr dr x = Some y
    \<and> list_all (\<lambda>r. sum_list (map (\<lambda>v. v\<^sup>2) r) \<le> real hidden) y"
  using AEBlock1_init_run[OF assms, of tr dr] layer_norm_row_init_energy
  by (fastforce simp: list_all_iff)

subsection \<open>Witnesses\<close>

theorem AEBlock1_shape_witness:
  "list_all (ae_layer_wf 1) [the (AELayer1_init 1 1 1 ([[1]], [[1]], [[1]], [[1]], [[1]], [0], [[1]], [0]))]
   \<and> is_mat 1 1 [[1 :: real]] \<and> (0::nat) < 1
   \<and> (\<exists>y. AEBlock1_forward [the (AELayer1_init 1 1 1 ([[1]], [[1]], [[1]], [[1]], [[1]], [0], [[1]], [0]))]
          False (\<lambda>_. \<lparr>att_keep = \<lambda>_ _ _. True, keep1 = \<lambda>_ _. True, ffn_keep = \<lambda>_ _. True,
            keep2 = \<lambda>_ _. True\<rparr>) [[1]] = Some y \<and> is_mat 1 1 y)"
proof -
  have h: "list_all (ae_layer_wf 1) [the (AELayer1_init 1 1 1 ([[1]], [[1]], [[1]], [[1]], [[1]], [0], [[1]], [0]))]"
    "is_mat 1 1 [[1 :: real]]" "(0::nat) < 1"
    by (simp_all add: AELayer1_init_def MHA_init_def ae_layer_wf_def mha_wf_def linear_wf_def
        ln_wf_def ffn_wf_def LayerNorm_init_def FFN_init_def is_mat_iff)
  show ?thesis using AEBlock1_shape[OF h] h by blast
qed

theorem AEBlock1_output_centred_witness:
  "(0::nat) < 1 \<and> (1::nat) mod 1 = 0 \<and> (0::nat) < 1
   \<and> list_all (\<lambda>i. ae_weights_wf 1 1 ((\<lambda>_. ([[1]], [[1]], [[1]], [[1]], [[1]], [0], [[1]], [0])) i)) [0..<1]
   \<and> is_mat 2 1 [[1], [2 :: real]]
   \<and> (\<exists>ls y. AEBlock1_init 1 1 1 1 (\<lambda>_. ([[1]], [[1]], [[1]], [[1]], [[1]], [0], [[1]], [0])) = Some ls
       \<and> AEBlock1_forward ls False (\<lambda>_. \<lparr>att_keep = \<lambda>_ _ _. True, keep1 = \<lambda>_ _. True,
           ffn_keep = \<lambda>_ _. True, keep2 = \<lambda>_ _. True\<rparr>) [[1], [2]] = Some y
       \<and> is_mat 2 1 y \<and> list_all (\<lambda>r. sum_list r = 0) y)"
proof -
  have h: "(0::nat) < 1" "(1::nat) mod 1 = 0" "(0::nat) < 2"
    "list_all (\<lambda>i. ae_weights_wf 1 1 ((\<lambda>_. ([[1]], [[1]], [[1]], [[1]], [[1]], [0], [[1]], [0])) i)) [0..<1]"
    "is_mat 2 1 [[1], [2 :: real]]"
    by (simp_all add: ae_weights_wf_def is_mat_iff)
  show ?thesis using AEBlock1_output_centred[OF h(1,2,1,1,1,4,5,3)] h by blast
qed

theorem AEBlock1_output_energy_bound_witness:
  "(0::nat) < 1 \<and> (1::nat) mod 1 = 0
   \<and> list_all (\<lambda>i. ae_weights_wf 1 1 ((\<lambda>_. ([[1]], [[1]], [[1]], [[1]], [[1]], [0], [[1]], [0])) i)) [0..<1]
   \<and> is_mat 2 1 [[1], [2 :: real]]
   \<and> (\<exists>ls y. AEBlock1_init 1 1 1 1 (\<lambda>_. ([[1]], [[1]], [[1]], [[1]], [[1]], [0], [[1]], [0])) = Some ls
       \<and> AEBlock1_forward ls True (\<lambda>_. \<lparr>att_keep = \<lambda>_ _ _. True, keep1 = \<lambda>_ _. True,
           ffn_keep = \<lambda>_ _. True, keep2 = \<lambda>_ _. True\<rparr>) [[1], [2]] = Some y
       \<and> list_all (\<lambda>r. sum_list (map (\<lambda>v. v\<^sup>2) r) \<le> real 1) y)"
proof -
  have h: "(0::nat) < 1" "(1::nat) mod 1 = 0" "(0::nat) < 2"
    "list_all (\<lambda>i. ae_weights_wf 1 1 ((\<lambda>_. ([[1]], [[1]], [[1]], [[1]], [[1]], [0], [[1]], [0])) i)) [0..<1]"
    "is_mat 2 1 [[1], [2 :: real]]"
    by (simp_all add: ae_weights_wf_def is_mat_iff)
  show ?thesis using AEBlock1_output_energy_bound[OF h(1,2,1,1,1,4,5,3)] h by blast
qed

end
