(* ===== verification/Regressor.thy ===== *)
theory Regressor
  imports Extractor Encoder Recurrent
begin

text \<open>
  \<^verbatim>\<open>AudioRegressor\<close> (\<^verbatim>\<open>audio_model.py\<close>, lines 209-246), for one sample: the
  convolutional extractor, the attention block \<^verbatim>\<open>AEBlock1\<close>, the two-layer GRU started
  from zeros, the last output row, and \<^verbatim>\<open>fc = nn.Linear(64, 1)\<close>. The forward pass
  returns the prediction and the encoder output, as the code returns
  \<^verbatim>\<open>(output, audio_output)\<close>. The random initial weights of every submodule are
  gathered in the record \<open>regressor_weights\<close>.
\<close>

section \<open>The regressor\<close>

record audio_regressor =
  ar_hidden_dim :: nat
  ar_num_head :: nat
  ar_inner_dim :: nat
  ar_n_layers :: nat
  Extractor :: audio_extractor
  AEBlock1 :: "ae_layer list"
  ar_gru :: gru
  ar_fc :: linear

record regressor_weights =
  conv_w :: "tensor3 \<times> tensor3 \<times> tensor3 \<times> tensor3"
  layer_w :: "nat \<Rightarrow> ae_weights"
  gru_w :: "mat \<times> mat \<times> mat \<times> mat"
  fc_weight :: mat
  fc_bias :: vec

text \<open>\<^verbatim>\<open>AudioRegressor.__init__(hidden_dim, num_head, inner_dim, n_layers)\<close>; it fails
  when \<^verbatim>\<open>AEBlock1\<close> does (zero heads with at least one layer).\<close>

definition AudioRegressor_init ::
  "nat \<Rightarrow> nat \<Rightarrow> nat \<Rightarrow> nat \<Rightarrow> regressor_weights \<Rightarrow> audio_regressor option" where
  "AudioRegressor_init hidden heads inner n_layers W =
     (case (conv_w W, gru_w W) of ((w1, w2, w3, w4), (Wih0, Whh0, Wih1, Whh1)) \<Rightarrow>
       map_option (\<lambda>ls. \<lparr>ar_hidden_dim = hidden, ar_num_head = heads, ar_inner_dim = inner,
           ar_n_layers = n_layers, Extractor = AudioExtractor_init w1 w2 w3 w4, AEBlock1 = ls,
           ar_gru = GRU_init hidden 64 Wih0 Whh0 Wih1 Whh1,
           ar_fc = \<lparr>lin_weight = fc_weight W, lin_bias = Some (fc_bias W)\<rparr>\<rparr>)
         (AEBlock1_init hidden heads inner n_layers (layer_w W)))"

definition AudioRegressor_forward ::
  "audio_regressor \<Rightarrow> bool \<Rightarrow> (nat \<Rightarrow> ae_draws) \<Rightarrow> (nat \<Rightarrow> nat \<Rightarrow> bool) \<Rightarrow> tensor3
   \<Rightarrow> (vec \<times> mat) option" where
  "AudioRegressor_forward R training dr gkeep audio = do {
     audio_output \<leftarrow> AudioExtractor_forward (Extractor R) audio;
     audio_output \<leftarrow> AEBlock1_forward (AEBlock1 R) training dr audio_output;
     let h0 = replicate 2 (replicate 64 0);
     (out, h) \<leftarrow> GRU_forward (ar_gru R) training gkeep audio_output h0;
     let h_t = last out;
     output \<leftarrow> linear_rows (ar_fc R) [h_t];
     Some (output ! 0, audio_output)
   }"

section \<open>Lemmas on the regressor\<close>

text \<open>Initial weights of the shapes the default \<^verbatim>\<open>AudioRegressor()\<close> allocates
  (\<open>hidden_dim = 768\<close>, \<open>inner_dim = 1536\<close>, \<open>n_layers = 6\<close>, GRU hidden size 64).\<close>

definition regressor_weights_wf :: "regressor_weights \<Rightarrow> bool" where
  "regressor_weights_wf W =
     (case (conv_w W, gru_w W) of ((w1, w2, w3, w4), (Wih0, Whh0, Wih1, Whh1)) \<Rightarrow>
        is_t3 8 2 4 w1 \<and> is_t3 8 8 7 w2 \<and> is_t3 24 8 4 w3 \<and> is_t3 24 24 7 w4
        \<and> list_all (\<lambda>i. ae_weights_wf 768 1536 (layer_w W i)) [0..<6]
        \<and> is_mat 192 768 Wih0 \<and> is_mat 192 64 Whh0 \<and> is_mat 192 64 Wih1 \<and> is_mat 192 64 Whh1
        \<and> is_mat 1 64 (fc_weight W) \<and> length (fc_bias W) = 1)"

lemma AudioRegressor_init_Some:
  assumes "regressor_weights_wf W"
  shows "\<exists>R. AudioRegressor_init 768 4 1536 6 W = Some R
    \<and> Extractor R = AudioExtractor_init (fst (conv_w W)) (fst (snd (conv_w W)))
        (fst (snd (snd (conv_w W)))) (snd (snd (snd (conv_w W))))
    \<and> list_all (ae_layer_wf 768) (AEBlock1 R) \<and> length (AEBlock1 R) = 6 \<and> gru_wf (ar_gru R)
    \<and> gru_input_size (ar_gru R) = 768 \<and> gru_hidden_size (ar_gru R) = 64
    \<and> gru_dropout (ar_gru R) = 1 / 10
    \<and> ar_fc R = \<lparr>lin_weight = fc_weight W, lin_bias = Some (fc_bias W)\<rparr>"
proof -
  have "\<forall>i < 6. ae_weights_wf 768 1536 (layer_w W i)"
    using assms by (auto simp: regressor_weights_wf_def list_all_iff split: prod.splits)
  then obtain ls where ls: "AEBlock1_init 768 4 1536 6 (layer_w W) = Some ls"
      "list_all (ae_layer_wf 768) ls" "length ls = 6"
    using AEBlock1_init_wf[of 4 768 1536 6 "layer_w W"] by (auto simp: list_all_iff)
  show ?thesis
    using assms ls
    by (auto simp: AudioRegressor_init_def regressor_weights_wf_def GRU_init_def gru_wf_def
        gru_layer_wf_def split: prod.splits)
qed

lemma even_frames_width_768:
  assumes "even T" "T \<noteq> 512"
  shows "3 * T div 2 \<noteq> (768::nat)"
proof -
  obtain k where "T = 2 * k" using assms(1) by blast
  then show ?thesis using assms(2) by simp
qed

lemma fc_head:
  assumes "is_mat 1 n Wf" "length b = 1" "length h = n"
  shows "linear_rows \<lparr>lin_weight = Wf, lin_bias = Some b\<rparr> [h] = Some [[dot (Wf ! 0) h + b ! 0]]"
proof -
  obtain w where w: "Wf = [w]" "length w = n"
    using assms(1) by (cases Wf) (auto simp: is_mat_iff)
  obtain c where c: "b = [c]" using assms(2) by (cases b) auto
  have "linear_rows \<lparr>lin_weight = Wf, lin_bias = Some b\<rparr> [h]
      = Some [linear_fwd \<lparr>lin_weight = Wf, lin_bias = Some b\<rparr> h]"
    using linear_rows_Some[of 1 n "\<lparr>lin_weight = Wf, lin_bias = Some b\<rparr>" "[h]"] assms(1,3) by simp
  then show ?thesis using w c by (simp add: linear_fwd_def matvec_def vadd_def)
qed

text \<open>The forward pass of the default model on 512 frames, read off: the prediction is
  \<^verbatim>\<open>fc\<close> applied to the last output row of the top GRU layer, both layers started
  from zero, the lower layer's outputs passed through the inter-layer dropout.\<close>

lemma AudioRegressor_forward_run:
  assumes "regressor_weights_wf W" "is_t3 2 512 128 x"
  shows "\<exists>R. AudioRegressor_init 768 4 1536 6 W = Some R
    \<and> (\<forall>tr dr gkeep. \<exists>a. is_mat 512 768 a \<and> AudioRegressor_forward R tr dr gkeep x =
        Some ([dot (fc_weight W ! 0) (last (gru_scan 64 (gru_l1 (ar_gru R)) (replicate 64 0)
          (dropout_mat (1 / 10) tr gkeep (gru_scan 64 (gru_l0 (ar_gru R)) (replicate 64 0) a))))
          + fc_bias W ! 0], a))"
proof -
  obtain w1 w2 w3 w4 where cw: "conv_w W = (w1, w2, w3, w4)" by (cases "conv_w W") auto
  have ws: "is_t3 8 2 4 w1" "is_t3 8 8 7 w2" "is_t3 24 8 4 w3" "is_t3 24 24 7 w4"
    "is_mat 1 64 (fc_weight W)" "length (fc_bias W) = 1"
    using assms(1) cw by (auto simp: regressor_weights_wf_def split: prod.splits)
  obtain R where R: "AudioRegressor_init 768 4 1536 6 W = Some R"
    "Extractor R = AudioExtractor_init w1 w2 w3 w4" "list_all (ae_layer_wf 768) (AEBlock1 R)"
    "gru_wf (ar_gru R)" "gru_input_size (ar_gru R) = 768" "gru_hidden_size (ar_gru R) = 64"
    "gru_dropout (ar_gru R) = 1 / 10"
    "ar_fc R = \<lparr>lin_weight = fc_weight W, lin_bias = Some (fc_bias W)\<rparr>"
    using AudioRegressor_init_Some[OF assms(1)] cw by auto
  have h0: "is_mat 2 64 (replicate 2 (replicate 64 (0::real)))"
    by (simp add: is_mat_iff)
  have "\<exists>a. is_mat 512 768 a \<and> AudioRegressor_forward R tr dr gkeep x =
        Some ([dot (fc_weight W ! 0) (last (gru_scan 64 (gru_l1 (ar_gru R)) (replicate 64 0)
          (dropout_mat (1 / 10) tr gkeep (gru_scan 64 (gru_l0 (ar_gru R)) (replicate 64 0) a))))
          + fc_bias W ! 0], a)" for tr dr gkeep
  proof -
    obtain a0 where a0: "AudioExtractor_forward (Extractor R) x = Some a0" "is_mat 512 768 a0"
      using extractor_512_shape[OF ws(1-4) assms(2)] R(2) by auto
    obtain a where a: "AEBlock1_forward (AEBlock1 R) tr dr a0 = Some a" "is_mat 512 768 a"
      using AEBlock1_forward_shape[OF R(3) a0(2)] by auto
    let ?o0 = "gru_scan 64 (gru_l0 (ar_gru R)) (replicate 64 0) a"
    let ?o1 = "gru_scan 64 (gru_l1 (ar_gru R)) (replicate 64 0) (dropout_mat (1 / 10) tr gkeep ?o0)"
    have ne: "a \<noteq> []" "list_all (\<lambda>r. length r = gru_input_size (ar_gru R)) a"
      using a(2) R(5) by (auto simp: is_mat_iff list_all_iff)
    have g: "GRU_forward (ar_gru R) tr gkeep a (replicate 2 (replicate 64 0))
        = Some (?o1, [last ?o0, last ?o1])"
      using GRU_forward_Some[OF R(4) ne, of "replicate 2 (replicate 64 0)" tr gkeep] h0 R(6,7)
      by (simp add: numeral_2_eq_2)
    have "is_mat (length (dropout_mat (1 / 10) tr gkeep ?o0)) 64 ?o1"
      using gru_scan_shape[OF gru_wf_lengths(3,4)[OF R(4)], of "replicate 64 0"
          "dropout_mat (1 / 10) tr gkeep ?o0"] R(6) by simp
    moreover have "last ?o1 \<in> set ?o1" using ne(1) by simp
    ultimately have "length (last ?o1) = 64" by (simp add: is_mat_iff)
    then have "linear_rows (ar_fc R) [last ?o1] = Some [[dot (fc_weight W ! 0) (last ?o1) + fc_bias W ! 0]]"
      using fc_head[OF ws(5,6)] R(8) by simp
    then show ?thesis using a0(1) a g by (simp add: AudioRegressor_forward_def)
  qed
  then show ?thesis using R(1) by blast
qed

end
