(* ===== verification/Spec2Isabelle.thy ===== *)
theory Spec2Isabelle
  imports Regressor
begin

text \<open>
  \<^bold>\<open>A verification development of the audio arousal model.\<close>
  The repository's program is \<^verbatim>\<open>src/Audio-Arousal Model/audio_model.py\<close>, a PyTorch
  model that predicts arousal from a 2-channel spectrogram of 512 time frames and 128
  frequency bins. Its parts, in the order the file defines them:
  \<^item> \<^verbatim>\<open>AudioExtractor\<close> (lines 9-48), four \<^verbatim>\<open>nn.Conv2d\<close> with kernels of height 1,
    ReLU between them, then \<^verbatim>\<open>transpose\<close> and \<^verbatim>\<open>reshape([B, 512, -1])\<close>:
    theory \<open>Extractor\<close>, record \<open>audio_extractor\<close>, \<open>AudioExtractor_init\<close>,
    \<open>AudioExtractor_forward\<close>, one \<open>conv2d_fwd\<close> per layer;
  \<^item> \<^verbatim>\<open>padding_mask_audio\<close> (lines 51-57), \<^verbatim>\<open>Self_Attention\<close> (86-109) and
    \<^verbatim>\<open>MHA\<close> (112-146): theory \<open>Attention\<close>, with \<open>split_heads\<close>/\<open>merge_heads\<close>
    for the \<^verbatim>\<open>view\<close>/\<^verbatim>\<open>transpose\<close> pairs of \<^verbatim>\<open>MHA.forward\<close>;
  \<^item> \<^verbatim>\<open>FFN\<close> (60-83), \<^verbatim>\<open>nn.LayerNorm\<close>, \<^verbatim>\<open>AELayer1\<close> (149-179) and
    \<^verbatim>\<open>AEBlock1\<close> (182-206): theory \<open>Encoder\<close>; \<open>ae_layers\<close> is the loop
    \<^verbatim>\<open>for layer in self.AE1\<close>;
  \<^item> the \<^verbatim>\<open>nn.GRU(768, 64, num_layers=2, bias=False)\<close> of line 230: theory
    \<open>Recurrent\<close>, \<open>gru_cell\<close>, \<open>gru_scan\<close> (one layer over the sequence) and
    \<open>GRU_forward\<close>;
  \<^item> \<^verbatim>\<open>AudioRegressor\<close> (209-246), which composes them: theory \<open>Regressor\<close>,
    \<open>AudioRegressor_init\<close> and \<open>AudioRegressor_forward\<close>.
  Theory \<open>Prelude\<close> holds what they share: tensors as nested lists of reals, the torch
  primitives (\<open>linear_rows\<close> for \<^verbatim>\<open>nn.Linear\<close>, \<open>matmul\<close>, \<open>softmax\<close>,
  \<open>dropout_mat\<close>, \<open>reshape_rows\<close>, \<open>view_cols\<close>) and the shape lemmas.

  \<^bold>\<open>Modelling.\<close> Every module acts on one sample: the batch axis is dropped because no
  operation of the file mixes samples. A module's parameters are a record built by its
  \<open>_init\<close> definition from the constructor's hyper-parameters; the random initial
  weights are arguments, and the theorems hold for all weights of the allocated shapes.
  Each \<open>forward\<close> is a definition in the option monad: where torch raises (a
  shape mismatch in \<^verbatim>\<open>nn.Linear\<close>, \<^verbatim>\<open>matmul\<close>, \<^verbatim>\<open>masked_fill\<close>,
  \<^verbatim>\<open>view\<close>, \<^verbatim>\<open>reshape\<close>, \<^verbatim>\<open>nn.LayerNorm\<close>, \<^verbatim>\<open>nn.GRU\<close>, or the
  \<^verbatim>\<open>ZeroDivisionError\<close> of zero heads) the model returns \<open>None\<close>. The training flag
  is an argument, and so is every Bernoulli draw of a dropout, as a function of the position
  (per head for attention, per layer for \<^verbatim>\<open>AEBlock1\<close>). Every loop is structural
  recursion (\<open>ae_layers\<close> over the layer list, \<open>gru_scan\<close> over the sequence,
  \<open>chunks\<close> with a measure), so every definition is total and no fuel is needed.

  \<^bold>\<open>Results.\<close> C1-C4 (\<open>Extractor\<close>): the extractor maps each time frame to one row of
  768 features on its own, zero frames to zero rows, and fails or mixes frames for inputs of
  other lengths than 512. C5-C9 (\<open>Attention\<close>): a frame with a single zero feature is
  ignored as a key by \<^verbatim>\<open>Self_Attention\<close> even when it carries signal; masked keys do
  not influence attention; the attention dropout runs even in evaluation mode; head split
  and merge are inverse; head counts that do not divide the hidden size make
  \<^verbatim>\<open>MHA\<close> fail; and (C18) the \<^verbatim>\<open>view\<close>/\<^verbatim>\<open>transpose\<close> implementation of
  \<^verbatim>\<open>MHA.forward\<close> refines the textbook multi-head attention \<open>MHA_spec\<close>.
  C10-C13 (\<open>Encoder\<close>): \<^verbatim>\<open>AEBlock1\<close> preserves the shape \<open>T \<times> D\<close> layer by
  layer; \<^verbatim>\<open>AELayer1\<close> adds the feed-forward residual twice; the block as its
  constructor builds it returns rows that sum to zero and whose squares sum to at most the
  hidden size, because every layer ends with the initial \<^verbatim>\<open>layerNorm2\<close>.
  C14 (\<open>Recurrent\<close>): the vectorised GRU cell \<open>gru_cell\<close> refines the per-unit
  equations \<open>gru_unit\<close> of the torch documentation without bias. C15-C17 (this theory):
  the whole model, as \<^verbatim>\<open>AudioRegressor()\<close> builds it, predicts \<^verbatim>\<open>fc\<close> of the
  final state of the top GRU layer, returns for every 512-frame input a prediction bounded
  by the output layer's weights (the GRU states stay in \<open>[-1, 1]\<close>), and fails for every
  other positive number of frames.

  \<^bold>\<open>Not modelled.\<close> \<^verbatim>\<open>torch.device\<close> selection and \<^verbatim>\<open>requires_grad_\<close>
  (placement and autograd, no effect on values); the random initialisation
  (\<^verbatim>\<open>xavier_uniform_\<close> and torch's defaults), replaced by universally quantified
  weights; floating point, replaced by real arithmetic, so the \<open>-1e9\<close> of
  \<^verbatim>\<open>masked_fill\<close> and the \<open>1e-5\<close> of layer norm are exact; the unused
  \<^verbatim>\<open>MHA.scale\<close> and \<^verbatim>\<open>MHA.dropout\<close>; torch's behaviour on an empty sequence in
  \<^verbatim>\<open>nn.GRU\<close>, modelled as an error.
\<close>

text \<open>Weights of the default model's shapes, all zero: an instance of
  \<open>regressor_weights_wf\<close>.\<close>

abbreviation zero_regressor_weights :: regressor_weights where
  "zero_regressor_weights \<equiv>
     \<lparr>conv_w = (zeros3 8 2 4, zeros3 8 8 7, zeros3 24 8 4, zeros3 24 24 7),
      layer_w = (\<lambda>_. (replicate 768 (replicate 768 0), replicate 768 (replicate 768 0),
        replicate 768 (replicate 768 0), replicate 768 (replicate 768 0),
        replicate 1536 (replicate 768 0), replicate 1536 0,
        replicate 768 (replicate 1536 0), replicate 768 0)),
      gru_w = (replicate 192 (replicate 768 0), replicate 192 (replicate 64 0),
        replicate 192 (replicate 64 0), replicate 192 (replicate 64 0)),
      fc_weight = [replicate 64 0], fc_bias = [0]\<rparr>"

section \<open>Properties of the whole model\<close>


text \<open>
  C16. End to end: for weights of the shapes \<^verbatim>\<open>AudioRegressor()\<close> allocates and any
  input of 512 frames, the constructor succeeds and the forward pass, in either mode and for
  every dropout draw, returns an encoder output of \<open>512 \<times> 768\<close> and a single prediction
  whose absolute value is at most \<open>\<Sum>|w| + |b|\<close> for the weight \<open>w\<close> and bias
  \<open>b\<close> of \<^verbatim>\<open>fc\<close>, since the GRU state it reads lies in \<open>[-1, 1]\<close>.
\<close>

theorem AudioRegressor_512_frames:
  assumes "regressor_weights_wf W" "is_t3 2 512 128 x"
  shows "\<exists>R. AudioRegressor_init 768 4 1536 6 W = Some R
    \<and> (\<forall>tr dr gkeep. \<exists>y a. AudioRegressor_forward R tr dr gkeep x = Some (y, a)
        \<and> is_mat 512 768 a \<and> length y = 1
        \<and> \<bar>y ! 0\<bar> \<le> sum_list (map abs (fc_weight W ! 0)) + \<bar>fc_bias W ! 0\<bar>)"
proof -
  obtain R where R: "AudioRegressor_init 768 4 1536 6 W = Some R"
    "\<forall>tr dr gkeep. \<exists>a. is_mat 512 768 a \<and> AudioRegressor_forward R tr dr gkeep x =
        Some ([dot (fc_weight W ! 0) (last (gru_scan 64 (gru_l1 (ar_gru R)) (replicate 64 0)
          (dropout_mat (1 / 10) tr gkeep (gru_scan 64 (gru_l0 (ar_gru R)) (replicate 64 0) a))))
          + fc_bias W ! 0], a)"
    using AudioRegressor_forward_run[OF assms] by blast
  have "\<exists>y a. AudioRegressor_forward R tr dr gkeep x = Some (y, a)
        \<and> is_mat 512 768 a \<and> length y = 1
        \<and> \<bar>y ! 0\<bar> \<le> sum_list (map abs (fc_weight W ! 0)) + \<bar>fc_bias W ! 0\<bar>" for tr dr gkeep
  proof -
    let ?w = "fc_weight W ! 0" and ?b = "fc_bias W ! 0"
    obtain a where a: "is_mat 512 768 a" "AudioRegressor_forward R tr dr gkeep x =
        Some ([dot ?w (last (gru_scan 64 (gru_l1 (ar_gru R)) (replicate 64 0)
          (dropout_mat (1 / 10) tr gkeep (gru_scan 64 (gru_l0 (ar_gru R)) (replicate 64 0) a))))
          + ?b], a)"
      using R(2) by blast
    let ?o1 = "gru_scan 64 (gru_l1 (ar_gru R)) (replicate 64 0)
      (dropout_mat (1 / 10) tr gkeep (gru_scan 64 (gru_l0 (ar_gru R)) (replicate 64 0) a))"
    have "unit_bounded (replicate 64 (0::real))" by (simp add: unit_bounded_def list_all_iff)
    then have "list_all unit_bounded ?o1" by (rule gru_scan_bounded)
    moreover have "?o1 \<noteq> []" using a(1) by (auto simp: is_mat_iff)
    ultimately have "unit_bounded (last ?o1)" by (simp add: list_all_iff)
    then have "\<bar>dot ?w (last ?o1)\<bar> \<le> sum_list (map abs ?w)" by (rule abs_dot_unit_bounded)
    then have "\<bar>dot ?w (last ?o1) + ?b\<bar> \<le> sum_list (map abs ?w) + \<bar>?b\<bar>" by linarith
    then show ?thesis using a by simp
  qed
  then show ?thesis using R(1) by blast
qed

text \<open>
  C17. The model only runs on exactly 512 frames: for any other positive number of frames
  the forward pass fails, in the extractor's reshape for an odd count and in the first
  linear projection of \<^verbatim>\<open>MHA\<close> for an even one (rows of \<open>3T/2 \<noteq> 768\<close> features).
\<close>

theorem AudioRegressor_wrong_frames_error:
  assumes "regressor_weights_wf W" "is_t3 2 T 128 x" "0 < T" "T \<noteq> 512"
  shows "\<exists>R. AudioRegressor_init 768 4 1536 6 W = Some R
    \<and> (\<forall>tr dr gkeep. AudioRegressor_forward R tr dr gkeep x = None)"
proof -
  obtain w1 w2 w3 w4 where cw: "conv_w W = (w1, w2, w3, w4)" by (cases "conv_w W") auto
  have ws: "is_t3 8 2 4 w1" "is_t3 8 8 7 w2" "is_t3 24 8 4 w3" "is_t3 24 24 7 w4"
    using assms(1) cw by (auto simp: regressor_weights_wf_def split: prod.splits)
  obtain R where R: "AudioRegressor_init 768 4 1536 6 W = Some R"
    "Extractor R = AudioExtractor_init w1 w2 w3 w4" "list_all (ae_layer_wf 768) (AEBlock1 R)"
    "length (AEBlock1 R) = 6"
    using AudioRegressor_init_Some[OF assms(1)] cw by auto
  obtain l ls where l: "AEBlock1 R = l # ls" "mha_wf 768 (ae_MHA l)"
    using R(3,4) by (cases "AEBlock1 R") (auto simp: ae_layer_wf_def)
  have "AudioRegressor_forward R tr dr gkeep x = None" for tr dr gkeep
  proof (cases "even T")
    case True
    obtain rows where rows: "AudioExtractor_forward (Extractor R) x = Some rows"
      "length rows = 512" "\<forall>r \<in> set rows. length r = 3 * T div 2"
      using extractor_even_rows[OF ws assms(2) True assms(3)] R(2) by auto
    have "rows ! 0 \<in> set rows" "length (rows ! 0) \<noteq> 768"
      using rows(2,3) even_frames_width_768[OF True assms(4)] by auto
    then have "AEBlock1_forward (AEBlock1 R) tr dr rows = None"
      using AEBlock1_width_None[OF l(2)] l(1) by simp
    then show ?thesis using rows(1) by (simp add: AudioRegressor_forward_def)
  next
    case False
    then show ?thesis
      using extractor_odd_None[OF ws assms(2)] R(2) by (simp add: AudioRegressor_forward_def)
  qed
  then show ?thesis using R(1) by blast
qed

subsection \<open>Witnesses\<close>

lemma zero_regressor_weights_wf: "regressor_weights_wf zero_regressor_weights"
  by (simp add: regressor_weights_wf_def ae_weights_wf_def is_mat_iff list_all_iff zeros3_shape)

theorem AudioRegressor_512_frames_witness:
  "regressor_weights_wf zero_regressor_weights \<and> is_t3 2 512 128 (zeros3 2 512 128)
   \<and> (\<exists>R. AudioRegressor_init 768 4 1536 6 zero_regressor_weights = Some R
    \<and> (\<forall>tr dr gkeep. \<exists>y a. AudioRegressor_forward R tr dr gkeep (zeros3 2 512 128) = Some (y, a)
        \<and> is_mat 512 768 a \<and> length y = 1
        \<and> \<bar>y ! 0\<bar> \<le> sum_list (map abs (fc_weight zero_regressor_weights ! 0))
          + \<bar>fc_bias zero_regressor_weights ! 0\<bar>))"
  using AudioRegressor_512_frames[OF zero_regressor_weights_wf zeros3_shape]
    zero_regressor_weights_wf zeros3_shape by blast

theorem AudioRegressor_wrong_frames_error_witness:
  "regressor_weights_wf zero_regressor_weights \<and> is_t3 2 2 128 (zeros3 2 2 128)
   \<and> (0::nat) < 2 \<and> (2::nat) \<noteq> 512
   \<and> (\<exists>R. AudioRegressor_init 768 4 1536 6 zero_regressor_weights = Some R
    \<and> (\<forall>tr dr gkeep. AudioRegressor_forward R tr dr gkeep (zeros3 2 2 128) = None))"
proof -
  have h: "(0::nat) < 2" "(2::nat) \<noteq> 512" by simp_all
  show ?thesis
    using AudioRegressor_wrong_frames_error[OF zero_regressor_weights_wf zeros3_shape h]
      zero_regressor_weights_wf zeros3_shape h by blast
qed


end
